theory Spec2Isabelle
  imports Complex_Main
begin

section \<open>The browser client of ARQV30 (src/static/js/main.js)\<close>

text \<open>
  The controller class \<open>ARQV30App\<close> is embedded function by function. JavaScript strings
  are modelled as \<open>string\<close>, holding the UTF-8 bytes of the text (the program measures
  and cuts only ASCII strings). Effects on the page and on the network are explicit:
  the controller's fields, the page elements it writes and the requests it issues are
  fields of one state record, and what the environment answers (the clock, the random
  generator, the reply of a \<open>fetch\<close>) is an argument of the function that awaits it.
  An \<open>async\<close> method is the function from that answer to the state it ends in.

  Embedded are form collection and validation, the analysis request, the insights and
  marketing sections, the PDF download, the upload list and the start of a new
  analysis. The status check at load, the drag-and-drop handlers and the other result
  sections are left out: no property below reads them.
\<close>

subsection \<open>Numbers and their text\<close>

text \<open>
  A JavaScript number is \<open>NaN\<close>, an infinity or a finite value. Finite values are kept
  as exact rationals: the rounding of binary64 is not modelled (and \<open>-0\<close> is \<open>0\<close>).
\<close>

datatype jsnum = NaN | PosInfinity | NegInfinity | Finite rat

definition digit_char :: "nat \<Rightarrow> char" where
  "digit_char d = ''0123456789'' ! (d mod 10)"

text \<open>The decimal text of a non-negative integer, as \<open>String(n)\<close> gives it below \<open>1e21\<close>.\<close>

fun decimal :: "nat \<Rightarrow> string" where
  "decimal n = (if n < 10 then [digit_char n] else decimal (n div 10) @ [digit_char (n mod 10)])"

declare decimal.simps [simp del]

text \<open>
  The digits after the decimal point of a fraction \<open>0 \<le> f < 1\<close>, until the expansion
  ends (at most \<open>fuel\<close> digits).
\<close>

fun fraction_digits :: "nat \<Rightarrow> rat \<Rightarrow> string" where
  "fraction_digits 0 f = []"
| "fraction_digits (Suc fuel) f =
     (if f = 0 then []
      else digit_char (nat \<lfloor>f * 10\<rfloor>) # fraction_digits fuel (f * 10 - of_int \<lfloor>f * 10\<rfloor>))"

text \<open>
  \<open>Number.prototype.toString\<close>, for the values of this program: decimal fractions of a
  few digits and moderate size, which JavaScript prints in full and without exponent.
\<close>

definition finite_to_string :: "rat \<Rightarrow> string" where
  "finite_to_string r =
     (let a = \<bar>r\<bar>; ip = \<lfloor>a\<rfloor>; fp = fraction_digits 20 (a - of_int ip)
      in (if r < 0 then ''-'' else '''') @ decimal (nat ip) @ (if fp = [] then '''' else ''.'' @ fp))"

fun number_to_string :: "jsnum \<Rightarrow> string" where
  "number_to_string NaN = ''NaN''"
| "number_to_string PosInfinity = ''Infinity''"
| "number_to_string NegInfinity = ''-Infinity''"
| "number_to_string (Finite r) = finite_to_string r"

text \<open>
  \<open>x.toFixed(2)\<close>: the integer \<open>n\<close> with \<open>n / 100\<close> nearest to \<open>x\<close> (the larger one on a
  tie), printed with two digits after the point.
\<close>

definition toFixed2 :: "rat \<Rightarrow> string" where
  "toFixed2 x =
     (let a = \<bar>x\<bar>; n = nat \<lfloor>a * 100 + 1 / 2\<rfloor>
      in (if x < 0 then ''-'' else '''') @ decimal (n div 100) @ ''.'' @
         [digit_char (n mod 100 div 10), digit_char (n mod 10)])"

subsection \<open>parseFloat\<close>

definition is_space :: "char \<Rightarrow> bool" where
  "is_space c = (c \<in> set [CHR '' '', CHR 0x09, CHR 0x0A, CHR 0x0B, CHR 0x0C, CHR 0x0D])"

definition is_digit :: "char \<Rightarrow> bool" where
  "is_digit c = (c \<in> set ''0123456789'')"

definition digit_value :: "char \<Rightarrow> nat" where
  "digit_value c = of_char c - 48"

definition digits_value :: "string \<Rightarrow> nat" where
  "digits_value ds = foldl (\<lambda>acc c. acc * 10 + digit_value c) 0 ds"

fun split_sign :: "string \<Rightarrow> bool \<times> string" where
  "split_sign [] = (False, [])"
| "split_sign (c # cs) =
     (if c = CHR ''-'' then (True, cs) else if c = CHR ''+'' then (False, cs) else (False, c # cs))"

text \<open>The exponent part \<open>e\<close>/\<open>E\<close>, sign, digits; it counts only when digits follow.\<close>

fun exponent_part :: "string \<Rightarrow> int" where
  "exponent_part [] = 0"
| "exponent_part (c # cs) =
     (if c = CHR ''e'' \<or> c = CHR ''E''
      then (let (neg, ds) = split_sign cs; e = takeWhile is_digit ds
            in if e = [] then 0
               else if neg then - int (digits_value e) else int (digits_value e))
      else 0)"

definition pow10 :: "int \<Rightarrow> rat" where
  "pow10 e = (if 0 \<le> e then 10 ^ nat e else 1 / 10 ^ nat (- e))"

text \<open>
  \<open>parseFloat\<close>: leading white space is skipped (the ASCII white space here), then the
  longest prefix that is a decimal literal is read; when there is none the result is
  \<open>NaN\<close>. The value read is the exact one: a literal beyond the range of binary64,
  which JavaScript reads as an infinity, stays finite here.
\<close>

definition parseFloat :: "string \<Rightarrow> jsnum" where
  "parseFloat s =
     (let (neg, u) = split_sign (dropWhile is_space s)
      in if take 8 u = ''Infinity'' then (if neg then NegInfinity else PosInfinity)
         else
           let ip = takeWhile is_digit u;
               r1 = dropWhile is_digit u;
               fp = (case r1 of [] \<Rightarrow> [] | c # r \<Rightarrow> if c = CHR ''.'' then takeWhile is_digit r else []);
               r2 = (case r1 of [] \<Rightarrow> [] | c # r \<Rightarrow> if c = CHR ''.'' then dropWhile is_digit r else r1)
           in if ip = [] \<and> fp = [] then NaN
              else
                let v = of_nat (digits_value (ip @ fp)) * pow10 (exponent_part r2 - int (length fp))
                in Finite (if neg then - v else v))"

subsection \<open>formatFileSize\<close>

text \<open>
  \<open>Math.floor(Math.log(bytes) / Math.log(k))\<close> is modelled by the exact integer
  logarithm: the largest \<open>i\<close> with \<open>k ^ i \<le> n\<close>.
\<close>

fun log_floor :: "nat \<Rightarrow> nat \<Rightarrow> nat" where
  "log_floor k n = (if k < 2 \<or> n < k then 0 else Suc (log_floor k (n div k)))"

declare log_floor.simps [simp del]

definition sizes :: "string list" where
  "sizes = [''Bytes'', ''KB'', ''MB'', ''GB'']"

text \<open>Reading \<open>sizes[i]\<close> past the end gives \<open>undefined\<close>, which \<open>+\<close> prints as text.\<close>

definition sizes_at :: "nat \<Rightarrow> string" where
  "sizes_at i = (if i < length sizes then sizes ! i else ''undefined'')"

text \<open>\<open>bytes\<close> is a file's size: a non-negative integer.\<close>

definition formatFileSize :: "nat \<Rightarrow> string" where
  "formatFileSize bytes =
     (if bytes = 0 then ''0 Bytes''
      else
        let k = 1024;
            i = log_floor k bytes
        in number_to_string (parseFloat (toFixed2 (of_nat bytes / of_nat (k ^ i)))) @ '' '' @ sizes_at i)"

subsection \<open>Values\<close>

text \<open>
  The values the program handles: what \<open>JSON.parse\<close> yields, \<open>undefined\<close> for a
  missing property, and the numbers and strings the program makes itself. An object is
  the list of its own properties in insertion order.
\<close>

datatype jsval =
    Undefined
  | Null
  | Bool bool
  | Number jsnum
  | String string
  | Array "jsval list"
  | Object "(string \<times> jsval) list"

text \<open>\<open>ToBoolean\<close>: what \<open>if (v)\<close>, \<open>!v\<close>, \<open>v ? a : b\<close> and \<open>v || w\<close> test.\<close>

fun truthy :: "jsval \<Rightarrow> bool" where
  "truthy Undefined = False"
| "truthy Null = False"
| "truthy (Bool b) = b"
| "truthy (Number n) = (case n of NaN \<Rightarrow> False | Finite r \<Rightarrow> r \<noteq> 0 | _ \<Rightarrow> True)"
| "truthy (String s) = (s \<noteq> [])"
| "truthy (Array xs) = True"
| "truthy (Object kvs) = True"

text \<open>\<open>a || b\<close>\<close>

definition js_or :: "jsval \<Rightarrow> jsval \<Rightarrow> jsval" where
  "js_or a b = (if truthy a then a else b)"

text \<open>
  \<open>a === b\<close>. \<open>NaN\<close> equals nothing, itself included. Arrays and objects are equal
  when they are the same object; the model has no object identities and takes two of
  them for the same object when they have the same content.
\<close>

definition strict_eq :: "jsval \<Rightarrow> jsval \<Rightarrow> bool" where
  "strict_eq a b = (a = b \<and> a \<noteq> Number NaN)"

text \<open>\<open>xs.join(sep)\<close> on an array of strings.\<close>

fun join :: "string \<Rightarrow> string list \<Rightarrow> string" where
  "join sep [] = []"
| "join sep [x] = x"
| "join sep (x # y # ys) = x @ sep @ join sep (y # ys)"

text \<open>
  \<open>ToString\<close>, as a template literal \<open>${v}\<close>, string concatenation and \<open>new Error(v)\<close>
  apply it. An array prints its elements joined by commas, \<open>null\<close> and \<open>undefined\<close>
  elements as nothing.
\<close>

fun to_string :: "jsval \<Rightarrow> string" where
  "to_string Undefined = ''undefined''"
| "to_string Null = ''null''"
| "to_string (Bool b) = (if b then ''true'' else ''false'')"
| "to_string (Number n) = number_to_string n"
| "to_string (String s) = s"
| "to_string (Array xs) =
     join '','' (map (\<lambda>x. if x = Undefined \<or> x = Null then [] else to_string x) xs)"
| "to_string (Object kvs) = ''[object Object]''"

text \<open>
  Reading a property \<open>v.p\<close>, for the property names this program reads (none of them
  is inherited from a prototype). On \<open>null\<close> and \<open>undefined\<close> the read throws a
  \<open>TypeError\<close>; the result is then \<open>Inl\<close> of the error's message (the text V8 gives).
\<close>

definition type_error_message :: "jsval \<Rightarrow> string \<Rightarrow> string" where
  "type_error_message v p =
     ''Cannot read properties of '' @ to_string v @ '' (reading '' @ [CHR 0x27] @ p @ [CHR 0x27] @ '')''"

definition property :: "(string \<times> jsval) list \<Rightarrow> string \<Rightarrow> jsval" where
  "property kvs p = (case map_of kvs p of None \<Rightarrow> Undefined | Some v \<Rightarrow> v)"

fun get_prop :: "jsval \<Rightarrow> string \<Rightarrow> string + jsval" where
  "get_prop Undefined p = Inl (type_error_message Undefined p)"
| "get_prop Null p = Inl (type_error_message Null p)"
| "get_prop (Object kvs) p = Inr (property kvs p)"
| "get_prop v p = Inr Undefined"

text \<open>
  \<open>JSON.stringify(v)\<close> is modelled by the document its text denotes: properties
  holding \<open>undefined\<close> are left out, \<open>undefined\<close> in an array and every number that is
  not finite become \<open>null\<close>.
\<close>

fun JSON_stringify :: "jsval \<Rightarrow> jsval" where
  "JSON_stringify (Number n) = (case n of Finite r \<Rightarrow> Number n | _ \<Rightarrow> Null)"
| "JSON_stringify (Array xs) = Array (map (\<lambda>x. if x = Undefined then Null else JSON_stringify x) xs)"
| "JSON_stringify (Object kvs) =
     Object (map (\<lambda>kv. (fst kv, JSON_stringify (snd kv))) (filter (\<lambda>kv. snd kv \<noteq> Undefined) kvs))"
| "JSON_stringify v = v"

text \<open>The keys of an object, as \<open>Object.keys\<close> lists them.\<close>

fun keys :: "jsval \<Rightarrow> string list" where
  "keys (Object kvs) = map fst kvs"
| "keys v = []"

subsection \<open>Rendering result sections\<close>







text \<open>
  \<open>buildMarketingSection(marketing)\<close>. The two keyword properties are arrays when
  present (\<open>None\<close>: the property is missing or \<open>null\<close>).
\<close>

record marketing =
  palavras_primarias :: "jsval list option"
  palavras_secundarias :: "jsval list option"

definition primary_tag :: "jsval \<Rightarrow> string" where
  "primary_tag keyword =
     ''\<newline>'' @
     ''                                <span class=\"keyword-tag\">'' @
     to_string keyword @
     ''</span>\<newline>'' @
     ''                            ''"

definition secondary_tag :: "jsval \<Rightarrow> string" where
  "secondary_tag keyword =
     ''\<newline>'' @
     ''                                <span class=\"keyword-tag secondary\">'' @
     to_string keyword @
     ''</span>\<newline>'' @
     ''                            ''"

text \<open>
  Reading a rendered keyword tag back: the text that stands between the tag's opening
  text and its closing text, whatever that text is.
\<close>

definition between :: "string \<Rightarrow> string \<Rightarrow> string \<Rightarrow> string" where
  "between opening closing html =
     (let body = drop (length opening) html
      in take (length body - length closing) body)"

definition primary_tag_keyword :: "string \<Rightarrow> string" where
  "primary_tag_keyword html =
     between
       (''\<newline>'' @
        ''                                <span class=\"keyword-tag\">'')
       (''</span>\<newline>'' @
        ''                            '')
       html"

definition secondary_tag_keyword :: "string \<Rightarrow> string" where
  "secondary_tag_keyword html =
     between
       (''\<newline>'' @
        ''                                <span class=\"keyword-tag secondary\">'')
       (''</span>\<newline>'' @
        ''                            '')
       html"

text \<open>\<open>xs.slice(0, n)\<close>\<close>

definition slice0 :: "nat \<Rightarrow> 'a list \<Rightarrow> 'a list" where
  "slice0 n xs = take n xs"

text \<open>The tags each keyword list contributes: the arrays the two \<open>map\<close> calls return.\<close>

definition primary_tags :: "jsval list \<Rightarrow> string list" where
  "primary_tags ps = map primary_tag ps"

definition secondary_tags :: "jsval list \<Rightarrow> string list" where
  "secondary_tags ss = map secondary_tag (slice0 10 ss)"

definition marketing_open :: string where
  "marketing_open =
     ''\<newline>'' @
     ''            <div class=\"result-section\">\<newline>'' @
     ''                <div class=\"result-section-header\">\<newline>'' @
     ''                    <i class=\"fas fa-bullhorn\"></i>\<newline>'' @
     ''                    <h4>Estrat'' @ [CHR 0xC3, CHR 0xA9] @ ''gia de Marketing</h4>\<newline>'' @
     ''                </div>\<newline>'' @
     ''                <div class=\"result-section-content\">\<newline>'' @
     ''        ''"

definition primary_open :: string where
  "primary_open =
     ''\<newline>'' @
     ''                <div class=\"expandable-section expanded\">\<newline>'' @
     ''                    <div class=\"expandable-header\">\<newline>'' @
     ''                        <div class=\"expandable-title\">\<newline>'' @
     ''                            <i class=\"fas fa-key\"></i>\<newline>'' @
     ''                            Palavras-Chave Prim'' @ [CHR 0xC3, CHR 0xA1] @ ''rias\<newline>'' @
     ''                        </div>\<newline>'' @
     ''                        <i class=\"fas fa-chevron-down expandable-icon\"></i>\<newline>'' @
     ''                    </div>\<newline>'' @
     ''                    <div class=\"expandable-content\">\<newline>'' @
     ''                        <div class=\"keyword-tags\">\<newline>'' @
     ''                            ''"

definition primary_close :: string where
  "primary_close =
     ''\<newline>'' @
     ''                        </div>\<newline>'' @
     ''                    </div>\<newline>'' @
     ''                </div>\<newline>'' @
     ''            ''"

definition primary_block :: "jsval list \<Rightarrow> string" where
  "primary_block ps = primary_open @ join [] (primary_tags ps) @ primary_close"

definition secondary_open :: string where
  "secondary_open =
     ''\<newline>'' @
     ''                <div class=\"expandable-section\">\<newline>'' @
     ''                    <div class=\"expandable-header\">\<newline>'' @
     ''                        <div class=\"expandable-title\">\<newline>'' @
     ''                            <i class=\"fas fa-tags\"></i>\<newline>'' @
     ''                            Palavras-Chave Secund'' @ [CHR 0xC3, CHR 0xA1] @ ''rias\<newline>'' @
     ''                        </div>\<newline>'' @
     ''                        <i class=\"fas fa-chevron-down expandable-icon\"></i>\<newline>'' @
     ''                    </div>\<newline>'' @
     ''                    <div class=\"expandable-content\">\<newline>'' @
     ''                        <div class=\"keyword-tags\">\<newline>'' @
     ''                            ''"

definition secondary_close :: string where
  "secondary_close =
     ''\<newline>'' @
     ''                        </div>\<newline>'' @
     ''                    </div>\<newline>'' @
     ''                </div>\<newline>'' @
     ''            ''"

definition secondary_block :: "jsval list \<Rightarrow> string" where
  "secondary_block ss = secondary_open @ join [] (secondary_tags ss) @ secondary_close"

definition marketing_close :: string where
  "marketing_close =
     ''\<newline>'' @
     ''                </div>\<newline>'' @
     ''            </div>\<newline>'' @
     ''        ''"

definition buildMarketingSection :: "marketing \<Rightarrow> string" where
  "buildMarketingSection m =
     (let html = marketing_open;
          html = (case palavras_primarias m of
                    None \<Rightarrow> html
                  | Some ps \<Rightarrow> if length ps > 0 then html @ primary_block ps else html);
          html = (case palavras_secundarias m of
                    None \<Rightarrow> html
                  | Some ss \<Rightarrow> if length ss > 0 then html @ secondary_block ss else html)
      in html @ marketing_close)"

subsection \<open>The controller's state, the page and the network\<close>

text \<open>A \<open>File\<close> of the browser, as far as the program reads it.\<close>

record upload =
  file_name :: string
  file_size :: nat

text \<open>
  A descriptor of the upload list: the object \<open>{name, size, type, id}\<close> that
  \<open>uploadFile\<close> pushes.
\<close>

record descriptor =
  name :: string
  size_d :: nat
  type_d :: jsval
  id_d :: jsval

datatype form_entry = FileEntry upload | TextEntry string

datatype request_body = JsonBody jsval | FormDataBody "(string \<times> form_entry) list"

text \<open>A call of \<open>fetch(url, {method, headers, body})\<close>; \<open>http_method\<close> is its \<open>method\<close>.\<close>

record request =
  url :: string
  http_method :: string
  headers :: "(string \<times> string) list"
  body :: request_body

text \<open>
  What an awaited \<open>fetch\<close> comes to: it rejects with an error (its message), or it
  resolves to a response with its \<open>ok\<close> flag and what reading the body
  (\<open>response.json()\<close>, \<open>response.blob()\<close>) gives: a rejection (\<open>Inl\<close> of the message)
  or the value.
\<close>

datatype 'a reply = Rejected string | Resolved bool "string + 'a"

text \<open>
  The fields of the controller (\<open>sessionId\<close>, \<open>uploadedFiles\<close>, \<open>currentAnalysis\<close>,
  with \<open>Null\<close> for \<open>null\<close>) and the parts of the page and of the outside it acts on:
  \<^item> \<open>form\<close>: the entries \<open>new FormData(analysisForm)\<close> yields, a value per control
    name, and \<open>form_defaults\<close>, what \<open>form.reset()\<close> restores;
  \<^item> \<open>resultsSection\<close> and \<open>loadingOverlay\<close>: the \<open>style.display\<close> of the element,
    \<open>resultsContent\<close> and \<open>uploadedFilesContainer\<close>: its \<open>innerHTML\<close>; \<open>None\<close> when
    \<open>getElementById\<close> finds no such element;
  \<^item> \<open>notifications\<close>: the banners appended to the page, as (type, message), in order;
  \<^item> \<open>requests\<close>: the calls of \<open>fetch\<close> issued, in order;
  \<^item> \<open>downloads\<close>: the files saved through a clicked download link, as
    (file name, content).
  Timers (the simulated progress bar, the removal of a banner after five seconds),
  scrolling and the click handlers of rendered sections are not represented.
\<close>

record app =
  sessionId :: string
  uploadedFiles :: "descriptor list"
  currentAnalysis :: jsval
  form :: "string \<rightharpoonup> string"
  form_defaults :: "string \<rightharpoonup> string"
  resultsSection :: "string option"
  resultsContent :: "string option"
  loadingOverlay :: "string option"
  uploadedFilesContainer :: "string option"
  notifications :: "(string \<times> string) list"
  requests :: "request list"
  downloads :: "(string \<times> string) list"

subsection \<open>Session identity\<close>

text \<open>\<open>s.substr(start, len)\<close> for \<open>start\<close> and \<open>len\<close> that are not negative.\<close>

definition substr :: "string \<Rightarrow> nat \<Rightarrow> nat \<Rightarrow> string" where
  "substr s start len = take len (drop start s)"

text \<open>
  \<open>generateSessionId()\<close>. \<open>now\<close> is what \<open>Date.now()\<close> returns (milliseconds since the
  epoch) and \<open>random36\<close> the text of \<open>Math.random().toString(36)\<close>, such as
  \<open>0.4fzyo82mvyr\<close>.
\<close>

definition generateSessionId :: "nat \<Rightarrow> string \<Rightarrow> string" where
  "generateSessionId now random36 = ''session_'' @ decimal now @ ''_'' @ substr random36 2 9"

subsection \<open>Notifications\<close>

definition showNotification :: "string \<Rightarrow> string \<Rightarrow> app \<Rightarrow> app" where
  "showNotification message type st = st\<lparr>notifications := notifications st @ [(type, message)]\<rparr>"

definition showError :: "string \<Rightarrow> app \<Rightarrow> app" where
  "showError message st = showNotification message ''error'' st"

definition showSuccess :: "string \<Rightarrow> app \<Rightarrow> app" where
  "showSuccess message st = showNotification message ''success'' st"

subsection \<open>Form collection and validation\<close>

text \<open>\<open>formData.get(name)\<close>: the value of the entry, or \<open>null\<close> when there is none.\<close>

definition formData_get :: "(string \<rightharpoonup> string) \<Rightarrow> string \<Rightarrow> jsval" where
  "formData_get formData n = (case formData n of None \<Rightarrow> Null | Some s \<Rightarrow> String s)"

text \<open>\<open>formData.get(n) ? parseFloat(formData.get(n)) : null\<close>\<close>

definition numeric_field :: "(string \<rightharpoonup> string) \<Rightarrow> string \<Rightarrow> jsval" where
  "numeric_field formData n =
     (if truthy (formData_get formData n)
      then Number (parseFloat (to_string (formData_get formData n)))
      else Null)"

text \<open>
  The loop over \<open>Object.keys(data)\<close> that deletes every property holding \<open>''\<close> or
  \<open>null\<close>.
\<close>

definition remove_empty :: "(string \<times> jsval) list \<Rightarrow> (string \<times> jsval) list" where
  "remove_empty data = filter (\<lambda>kv. \<not> (strict_eq (snd kv) (String []) \<or> strict_eq (snd kv) Null)) data"

text \<open>The object literal \<open>data\<close> of \<open>collectFormData\<close>, as the list of its properties.\<close>

definition data_literal :: "app \<Rightarrow> (string \<times> jsval) list" where
  "data_literal st =
     (let formData = form st
      in [(''session_id'', String (sessionId st)),
          (''segmento'', formData_get formData ''segmento''),
          (''produto'', formData_get formData ''produto''),
          (''preco'', numeric_field formData ''preco''),
          (''publico'', formData_get formData ''publico''),
          (''objetivo_receita'', numeric_field formData ''objetivo_receita''),
          (''orcamento_marketing'', numeric_field formData ''orcamento_marketing''),
          (''prazo_lancamento'', formData_get formData ''prazo_lancamento''),
          (''concorrentes'', formData_get formData ''concorrentes''),
          (''query'', formData_get formData ''query''),
          (''dados_adicionais'', formData_get formData ''dados_adicionais'')])"

text \<open>\<open>collectFormData()\<close> returns \<open>data\<close> after the empty values are removed.\<close>

definition collectFormData :: "app \<Rightarrow> (string \<times> jsval) list" where
  "collectFormData st = remove_empty (data_literal st)"

text \<open>\<open>validateFormData(data)\<close>: the returned flag and the state after it.\<close>

definition validateFormData :: "(string \<times> jsval) list \<Rightarrow> app \<Rightarrow> bool \<times> app" where
  "validateFormData data st =
     (if \<not> truthy (property data ''segmento'')
      then (False,
            showError (''O campo \"Segmento de Mercado\" '' @ [CHR 0xC3, CHR 0xA9] @
                       '' obrigat'' @ [CHR 0xC3, CHR 0xB3] @ ''rio.'') st)
      else (True, st))"

subsection \<open>The analysis request\<close>

definition showLoading :: "app \<Rightarrow> app" where
  "showLoading st = st\<lparr>loadingOverlay := map_option (\<lambda>_. ''flex'') (loadingOverlay st)\<rparr>"

definition hideLoading :: "app \<Rightarrow> app" where
  "hideLoading st = st\<lparr>loadingOverlay := map_option (\<lambda>_. ''none'') (loadingOverlay st)\<rparr>"

text \<open>
  \<open>displayResults(result)\<close>. The page builder \<open>buildResultsHTML\<close> is an argument: it
  returns the page's HTML or throws (\<open>Inl\<close> of the message). A throw leaves the state
  reached so far, with the results block already emptied.
\<close>

definition displayResults :: "(jsval \<Rightarrow> string + string) \<Rightarrow> jsval \<Rightarrow> app \<Rightarrow> string \<times> app + app" where
  "displayResults buildResultsHTML result st =
     (if resultsSection st = None \<or> resultsContent st = None then Inr st
      else
        let st = st\<lparr>resultsContent := Some []\<rparr>
        in case buildResultsHTML result of
             Inl message \<Rightarrow> Inl (message, st)
           | Inr html \<Rightarrow> Inr (st\<lparr>resultsContent := Some html, resultsSection := Some ''block''\<rparr>))"

definition analyze_request :: "(string \<times> jsval) list \<Rightarrow> request" where
  "analyze_request data =
     \<lparr>url = ''/api/analyze'', http_method = ''POST'',
      headers = [(''Content-Type'', ''application/json'')],
      body = JsonBody (JSON_stringify (Object data))\<rparr>"

text \<open>The \<open>catch\<close> block of \<open>performAnalysis\<close>.\<close>

definition analysis_failed :: "string \<Rightarrow> app \<Rightarrow> app" where
  "analysis_failed message st =
     showError (''Erro ao realizar an'' @ [CHR 0xC3, CHR 0xA1] @ ''lise: '' @ message) (hideLoading st)"

text \<open>\<open>performAnalysis(data)\<close>, given what the awaited \<open>fetch\<close> comes to.\<close>

definition performAnalysis ::
  "(jsval \<Rightarrow> string + string) \<Rightarrow> (string \<times> jsval) list \<Rightarrow> jsval reply \<Rightarrow> app \<Rightarrow> app" where
  "performAnalysis buildResultsHTML data r st =
     (let st = showLoading st;
          st = st\<lparr>requests := requests st @ [analyze_request data]\<rparr>
      in case r of
           Rejected message \<Rightarrow> analysis_failed message st
         | Resolved ok json \<Rightarrow>
             (case json of
                Inl message \<Rightarrow> analysis_failed message st
              | Inr v \<Rightarrow>
                  if \<not> ok then
                    (case get_prop v ''message'' of
                       Inl message \<Rightarrow> analysis_failed message st
                     | Inr m \<Rightarrow>
                         analysis_failed
                           (to_string (js_or m (String (''Erro na an'' @ [CHR 0xC3, CHR 0xA1] @ ''lise'')))) st)
                  else
                    (let st = st\<lparr>currentAnalysis := v\<rparr>;
                         st = hideLoading st
                     in (case displayResults buildResultsHTML v st of
                           Inl (message, st) \<Rightarrow> analysis_failed message st
                         | Inr st \<Rightarrow> st))))"

text \<open>\<open>handleFormSubmit(e)\<close>\<close>

definition handleFormSubmit :: "(jsval \<Rightarrow> string + string) \<Rightarrow> jsval reply \<Rightarrow> app \<Rightarrow> app" where
  "handleFormSubmit buildResultsHTML r st =
     (let formData = collectFormData st;
          (valid, st) = validateFormData formData st
      in if \<not> valid then st
         else performAnalysis buildResultsHTML formData r st)"

subsection \<open>PDF download\<close>

definition pdf_request :: "jsval \<Rightarrow> request" where
  "pdf_request analysis =
     \<lparr>url = ''/api/generate_pdf'', http_method = ''POST'',
      headers = [(''Content-Type'', ''application/json'')],
      body = JsonBody (JSON_stringify analysis)\<rparr>"

text \<open>The \<open>catch\<close> block of \<open>downloadPDF\<close>.\<close>

definition pdf_failed :: "string \<Rightarrow> app \<Rightarrow> app" where
  "pdf_failed message st = showError (''Erro ao gerar PDF: '' @ message) st"

text \<open>
  \<open>downloadPDF()\<close>, given what the awaited \<open>fetch\<close> comes to (the body read as a blob)
  and \<open>iso_now\<close>, the text of \<open>new Date().toISOString()\<close>.
\<close>

definition downloadPDF :: "string reply \<Rightarrow> string \<Rightarrow> app \<Rightarrow> app" where
  "downloadPDF r iso_now st =
     (if \<not> truthy (currentAnalysis st)
      then showError (''Nenhuma an'' @ [CHR 0xC3, CHR 0xA1] @ ''lise dispon'' @ [CHR 0xC3, CHR 0xAD] @
                      ''vel para download.'') st
      else
        (let st = st\<lparr>requests := requests st @ [pdf_request (currentAnalysis st)]\<rparr>
         in (case r of
               Rejected message \<Rightarrow> pdf_failed message st
             | Resolved ok blob \<Rightarrow>
                 if \<not> ok then pdf_failed ''Erro ao gerar PDF'' st
                 else
                   (case blob of
                      Inl message \<Rightarrow> pdf_failed message st
                    | Inr content \<Rightarrow>
                        st\<lparr>downloads := downloads st @
                             [(''analise_mercado_'' @ take 10 iso_now @ ''.pdf'', content)]\<rparr>))))"

subsection \<open>The upload list\<close>

text \<open>One entry of the rendered upload list.\<close>

definition file_item :: "descriptor \<Rightarrow> string" where
  "file_item file =
     ''\<newline>'' @
     ''            <div class=\"file-item\" data-file-id=\"'' @
     to_string (id_d file) @
     ''\">\<newline>'' @
     ''                <div class=\"file-info\">\<newline>'' @
     ''                    <i class=\"fas fa-file-alt\"></i>\<newline>'' @
     ''                    <div>\<newline>'' @
     ''                        <div class=\"file-name\">'' @
     name file @
     ''</div>\<newline>'' @
     ''                        <div class=\"file-size\">'' @
     formatFileSize (size_d file) @
     '' '' @ [CHR 0xE2, CHR 0x80, CHR 0xA2] @ '' '' @
     to_string (type_d file) @
     ''</div>\<newline>'' @
     ''                    </div>\<newline>'' @
     ''                </div>\<newline>'' @
     ''                <button class=\"file-remove\" onclick=\"app.removeFile('' @ [CHR 0x27] @
     to_string (id_d file) @
     [CHR 0x27] @ '')\">\<newline>'' @
     ''                    <i class=\"fas fa-times\"></i>\<newline>'' @
     ''                </button>\<newline>'' @
     ''            </div>\<newline>'' @
     ''        ''"

text \<open>\<open>updateUploadedFilesList()\<close>\<close>

definition updateUploadedFilesList :: "app \<Rightarrow> app" where
  "updateUploadedFilesList st =
     (if uploadedFilesContainer st = None then st
      else if length (uploadedFiles st) = 0 then st\<lparr>uploadedFilesContainer := Some []\<rparr>
      else st\<lparr>uploadedFilesContainer := Some (join [] (map file_item (uploadedFiles st)))\<rparr>)"

definition upload_request :: "upload \<Rightarrow> string \<Rightarrow> request" where
  "upload_request file session =
     \<lparr>url = ''/api/upload_attachment'', http_method = ''POST'', headers = [],
      body = FormDataBody [(''file'', FileEntry file), (''session_id'', TextEntry session)]\<rparr>"

text \<open>The \<open>catch\<close> block of \<open>uploadFile\<close>.\<close>

definition upload_failed :: "upload \<Rightarrow> string \<Rightarrow> app \<Rightarrow> app" where
  "upload_failed file message st =
     showError (''Erro ao processar \"'' @ file_name file @ ''\": '' @ message) st"

text \<open>
  The branch of \<open>uploadFile\<close> taken on a true \<open>result.success\<close>. \<open>now\<close> is what
  \<open>Date.now()\<close> returns, read only when the server sent no usable \<open>attachment_id\<close>.
\<close>

definition upload_succeeded :: "upload \<Rightarrow> jsval \<Rightarrow> jsval \<Rightarrow> nat \<Rightarrow> app \<Rightarrow> app" where
  "upload_succeeded file content_type attachment_id now st =
     (let st = st\<lparr>uploadedFiles := uploadedFiles st @
                  [\<lparr>name = file_name file,
                    size_d = file_size file,
                    type_d = content_type,
                    id_d = js_or attachment_id (Number (Finite (of_nat now)))\<rparr>]\<rparr>;
          st = updateUploadedFilesList st
      in showSuccess (''Arquivo \"'' @ file_name file @ ''\" processado com sucesso!'') st)"

text \<open>
  \<open>uploadFile(file)\<close>, given what the awaited \<open>fetch\<close> comes to (the body read as
  JSON) and the clock.
\<close>

definition uploadFile :: "upload \<Rightarrow> jsval reply \<Rightarrow> nat \<Rightarrow> app \<Rightarrow> app" where
  "uploadFile file r now st =
     (let st = st\<lparr>requests := requests st @ [upload_request file (sessionId st)]\<rparr>
      in (case r of
            Rejected message \<Rightarrow> upload_failed file message st
          | Resolved ok json \<Rightarrow>
              (case json of
                 Inl message \<Rightarrow> upload_failed file message st
               | Inr result \<Rightarrow>
                   (case get_prop result ''success'' of
                      Inl message \<Rightarrow> upload_failed file message st
                    | Inr success \<Rightarrow>
                        if truthy success then
                          (case get_prop result ''content_type'' of
                             Inl message \<Rightarrow> upload_failed file message st
                           | Inr content_type \<Rightarrow>
                               (case get_prop result ''attachment_id'' of
                                  Inl message \<Rightarrow> upload_failed file message st
                                | Inr attachment_id \<Rightarrow>
                                    upload_succeeded file content_type attachment_id now st))
                        else
                          (case get_prop result ''error'' of
                             Inl message \<Rightarrow> upload_failed file message st
                           | Inr error \<Rightarrow>
                               upload_failed file
                                 (to_string (js_or error (String ''Erro ao processar arquivo''))) st)))))"

text \<open>\<open>removeFile(fileId)\<close>\<close>

definition removeFile :: "jsval \<Rightarrow> app \<Rightarrow> app" where
  "removeFile fileId st =
     updateUploadedFilesList
       (st\<lparr>uploadedFiles := filter (\<lambda>file. \<not> strict_eq (id_d file) fileId) (uploadedFiles st)\<rparr>)"

subsection \<open>Starting over\<close>

text \<open>\<open>startNewAnalysis()\<close>, given the clock and the random text its new session id reads.\<close>

definition startNewAnalysis :: "nat \<Rightarrow> string \<Rightarrow> app \<Rightarrow> app" where
  "startNewAnalysis now random36 st =
     (let st = st\<lparr>form := form_defaults st\<rparr>;
          st = st\<lparr>uploadedFiles := []\<rparr>;
          st = updateUploadedFilesList st;
          st = st\<lparr>resultsSection := map_option (\<lambda>_. ''none'') (resultsSection st)\<rparr>;
          st = st\<lparr>sessionId := generateSessionId now random36\<rparr>
      in st\<lparr>currentAnalysis := Null\<rparr>)"

subsection \<open>Notions the properties are stated with\<close>

text \<open>
  The replies on which \<open>uploadFile\<close> takes its success branch: the body parses and
  its \<open>success\<close> property is true. On every other reply the upload has failed.
\<close>

definition upload_succeeds :: "jsval reply \<Rightarrow> bool" where
  "upload_succeeds r =
     (case r of
        Rejected message \<Rightarrow> False
      | Resolved ok json \<Rightarrow>
          (case json of
             Inl message \<Rightarrow> False
           | Inr result \<Rightarrow>
               (case get_prop result ''success'' of Inl message \<Rightarrow> False | Inr success \<Rightarrow> truthy success)))"

text \<open>
  How often a text occurs in another: the number of positions at which it starts. The
  opening tags below are the texts whose occurrences in a rendered section count its
  cards and its keyword tags.
\<close>

fun starts_with :: "string \<Rightarrow> string \<Rightarrow> bool" where
  "starts_with [] s = True"
| "starts_with (p # ps) [] = False"
| "starts_with (p # ps) (c # cs) = (p = c \<and> starts_with ps cs)"

fun occurrences :: "string \<Rightarrow> string \<Rightarrow> nat" where
  "occurrences pat [] = 0"
| "occurrences pat (c # cs) = (if starts_with pat (c # cs) then 1 else 0) + occurrences pat cs"

text \<open>
  A text is clear of a pattern when the pattern starts at none of its positions,
  whatever follows the text.
\<close>

fun compatible :: "string \<Rightarrow> string \<Rightarrow> bool" where
  "compatible [] s = True"
| "compatible (p # ps) [] = True"
| "compatible (p # ps) (c # cs) = (p = c \<and> compatible ps cs)"

fun clear_of :: "string \<Rightarrow> string \<Rightarrow> bool" where
  "clear_of pat [] = True"
| "clear_of pat (c # cs) = (\<not> compatible pat (c # cs) \<and> clear_of pat cs)"


definition primary_tag_open :: string where
  "primary_tag_open = ''<span class=\"keyword-tag\">''"

definition secondary_tag_open :: string where
  "secondary_tag_open = ''<span class=\"keyword-tag secondary\">''"

text \<open>A value whose text holds no \<open><\<close>, so that it brings no tag of its own into the page.\<close>

definition plain :: "jsval \<Rightarrow> bool" where
  "plain v = (CHR ''<'' \<notin> set (to_string v))"

text \<open>A keyword list of the marketing section; a missing one has no keywords.\<close>

definition keyword_list :: "jsval list option \<Rightarrow> jsval list" where
  "keyword_list field = (case field of None \<Rightarrow> [] | Some ks \<Rightarrow> ks)"

text \<open>
  A state for the concrete cases: the fields as the constructor sets them (a session id
  made at clock reading 1700000000000), on a page that has every element and a form
  whose controls are all empty.
\<close>

definition blank_form :: "string \<rightharpoonup> string" where
  "blank_form =
     map_of (map (\<lambda>n. (n, []))
       [''segmento'', ''produto'', ''preco'', ''publico'', ''objetivo_receita'',
        ''orcamento_marketing'', ''prazo_lancamento'', ''concorrentes'', ''query'',
        ''dados_adicionais''])"

definition fresh_app :: app where
  "fresh_app =
     \<lparr>sessionId = generateSessionId 1700000000000 ''0.4fzyo82mvyr'',
      uploadedFiles = [],
      currentAnalysis = Null,
      form = blank_form,
      form_defaults = blank_form,
      resultsSection = Some ''none'',
      resultsContent = Some [],
      loadingOverlay = Some ''none'',
      uploadedFilesContainer = Some [],
      notifications = [],
      requests = [],
      downloads = []\<rparr>"

section \<open>Properties\<close>


subsection \<open>Evaluating the number functions\<close>

lemma decimal_digit: "n < 10 \<Longrightarrow> decimal n = [digit_char n]"
  by (subst decimal.simps) simp

lemma decimal_step: "10 \<le> n \<Longrightarrow> decimal n = decimal (n div 10) @ [digit_char (n mod 10)]"
  by (subst decimal.simps) simp

lemma log_floor_base: "k < 2 \<or> n < k \<Longrightarrow> log_floor k n = 0"
  by (subst log_floor.simps) simp

lemma log_floor_step: "2 \<le> k \<Longrightarrow> k \<le> n \<Longrightarrow> log_floor k n = Suc (log_floor k (n div k))"
  by (subst log_floor.simps) simp

lemma fraction_digits_numeral:
  "fraction_digits (numeral k) f =
     (if f = 0 then []
      else digit_char (nat \<lfloor>f * 10\<rfloor>) # fraction_digits (pred_numeral k) (f * 10 - of_int \<lfloor>f * 10\<rfloor>))"
  by (simp add: numeral_eq_Suc)

lemma floor_rat_numeral_divide: "\<lfloor>numeral a / numeral b :: rat\<rfloor> = numeral a div numeral b"
  by (metis floor_divide_of_int_eq of_int_numeral)

lemmas number_eval =
  decimal_digit decimal_step digit_char_def fraction_digits_numeral floor_rat_numeral_divide
  finite_to_string_def toFixed2_def Let_def

lemmas parseFloat_eval =
  parseFloat_def is_space_def is_digit_def digits_value_def digit_value_def pow10_def

subsection \<open>Decimal texts\<close>

lemma below_ten:
  assumes "d < (10::nat)"
  obtains "d = 0" | "d = 1" | "d = 2" | "d = 3" | "d = 4" | "d = 5" | "d = 6" | "d = 7" | "d = 8" | "d = 9"
proof -
  from assms
  have "d = 0 \<or> d = 1 \<or> d = 2 \<or> d = 3 \<or> d = 4 \<or> d = 5 \<or> d = 6 \<or> d = 7 \<or> d = 8 \<or> d = 9"
    by arith
  then show thesis
    using that by blast
qed

lemma digit_char_is_digit: "is_digit (digit_char d)"
proof -
  have "d mod 10 < 10" by simp
  then show ?thesis
    unfolding digit_char_def is_digit_def by (elim below_ten) simp_all
qed

lemma digit_value_digit_char: "d < 10 \<Longrightarrow> digit_value (digit_char d) = d"
proof -
  assume "d < 10"
  then show ?thesis
    unfolding digit_char_def digit_value_def by (elim below_ten) simp_all
qed

lemma decimal_digits: "\<forall>c \<in> set (decimal n). is_digit c"
proof (induction n rule: decimal.induct)
  case (1 n)
  show ?case
  proof (cases "n < 10")
    case True
    then show ?thesis by (simp add: decimal_digit digit_char_is_digit)
  next
    case False
    with 1 show ?thesis by (simp add: decimal_step digit_char_is_digit)
  qed
qed

lemma digits_value_snoc: "digits_value (ds @ [c]) = digits_value ds * 10 + digit_value c"
  by (simp add: digits_value_def)

lemma digits_value_decimal: "digits_value (decimal n) = n"
proof (induction n rule: decimal.induct)
  case (1 n)
  show ?case
  proof (cases "n < 10")
    case True
    then show ?thesis by (simp add: decimal_digit digits_value_def digit_value_digit_char)
  next
    case False
    with 1 show ?thesis
      by (simp add: decimal_step digits_value_snoc digit_value_digit_char)
  qed
qed

lemma decimal_inject: "decimal m = decimal n \<longleftrightarrow> m = n"
  by (metis digits_value_decimal)

lemma decimal_no_char: "\<not> is_digit c \<Longrightarrow> c \<notin> set (decimal n)"
  using decimal_digits by blast

subsection \<open>File sizes\<close>

text \<open>
  C9. \<open>formatFileSize\<close> applied to 2048 bytes returns the text \<open>2 KB\<close>: the index is
  1, the quotient 2 is printed by \<open>toFixed(2)\<close> as \<open>2.00\<close>, read back by \<open>parseFloat\<close>
  as 2 and shown as \<open>2\<close>, followed by a space and \<open>sizes[1]\<close>. At this input the
  exact arithmetic of the model is that of the program: the quotient of the logarithms
  is 1.1, far from an integer, and 2048 / 1024 is exact in binary floating point.
\<close>

theorem formatFileSize_2048: "formatFileSize 2048 = ''2 KB''"
proof -
  have i: "log_floor 1024 2048 = 1"
    by (simp add: log_floor_base log_floor_step)
  have fixed: "toFixed2 2 = ''2.00''"
    by (simp add: number_eval)
  have parsed: "parseFloat ''2.00'' = Finite 2"
    by (simp add: parseFloat_eval)
  have shown: "finite_to_string 2 = ''2''"
    by (simp add: number_eval)
  show ?thesis
    unfolding formatFileSize_def Let_def
    by (simp only: i) (simp add: fixed parsed shown sizes_at_def sizes_def)
qed


subsection \<open>Counting tags in rendered text\<close>

lemma join_empty_separator: "join [] xs = concat xs"
  by (induction xs rule: induct_list012) simp_all

lemma occurrences_skip:
  "p \<notin> set a \<Longrightarrow> occurrences (p # ps) (a @ b) = occurrences (p # ps) b"
  by (induction a) auto

lemma starts_with_compatible: "starts_with pat (a @ b) \<Longrightarrow> compatible pat a"
  by (induction pat a rule: compatible.induct) auto

lemma occurrences_clear: "clear_of pat a \<Longrightarrow> occurrences pat (a @ b) = occurrences pat b"
proof (induction a)
  case Nil
  then show ?case by simp
next
  case (Cons c cs)
  then have "\<not> compatible pat (c # cs)" and "clear_of pat cs"
    by simp_all
  then have "\<not> starts_with pat ((c # cs) @ b)"
    using starts_with_compatible by blast
  with Cons.IH [OF \<open>clear_of pat cs\<close>] show ?case
    by simp
qed

lemma occurrences_clear_end: "clear_of pat a \<Longrightarrow> occurrences pat a = 0"
  using occurrences_clear [of pat a "[]"] by simp



lemma primary_tag_open_skip:
  "CHR ''<'' \<notin> set a \<Longrightarrow> occurrences primary_tag_open (a @ b) = occurrences primary_tag_open b"
  unfolding primary_tag_open_def by (rule occurrences_skip)

lemma secondary_tag_open_skip:
  "CHR ''<'' \<notin> set a \<Longrightarrow> occurrences secondary_tag_open (a @ b) = occurrences secondary_tag_open b"
  unfolding secondary_tag_open_def by (rule occurrences_skip)





subsection \<open>Rendered lists\<close>








lemma length_secondary_tags: "length (secondary_tags ss) = min 10 (length ss)"
  by (simp add: secondary_tags_def slice0_def min.commute)

lemma nth_secondary_tags: "i < min 10 (length ss) \<Longrightarrow> secondary_tags ss ! i = secondary_tag (ss ! i)"
  by (simp add: secondary_tags_def slice0_def)

lemma secondary_tags_short: "length ss \<le> 10 \<Longrightarrow> secondary_tags ss = map secondary_tag ss"
  by (simp add: secondary_tags_def slice0_def)

lemma buildMarketingSection_html:
  "buildMarketingSection m =
     marketing_open
     @ (if keyword_list (palavras_primarias m) = [] then []
        else primary_open @ concat (map primary_tag (keyword_list (palavras_primarias m))) @ primary_close)
     @ (if keyword_list (palavras_secundarias m) = [] then []
        else secondary_open @ concat (map secondary_tag (take 10 (keyword_list (palavras_secundarias m))))
             @ secondary_close)
     @ marketing_close"
  by (simp add: buildMarketingSection_def keyword_list_def primary_block_def secondary_block_def
      primary_tags_def secondary_tags_def slice0_def join_empty_separator Let_def
      split: option.split)

text \<open>A keyword tag holds its own opening tag once, and not the other kind's.\<close>

lemma primary_in_primary_tag:
  assumes "plain keyword"
  shows "occurrences primary_tag_open (primary_tag keyword @ rest) = Suc (occurrences primary_tag_open rest)"
proof -
  let ?after = "''</span>\<newline>'' @ ''                            '' @ rest"
  have s1: "occurrences primary_tag_open (primary_tag keyword @ rest) =
      Suc (occurrences primary_tag_open (to_string keyword @ ?after))"
    by (simp add: primary_tag_def primary_tag_open_def)
  have s2: "occurrences primary_tag_open (to_string keyword @ ?after) = occurrences primary_tag_open ?after"
    by (rule primary_tag_open_skip) (use assms in \<open>simp add: plain_def\<close>)
  have s3: "occurrences primary_tag_open ?after = occurrences primary_tag_open rest"
    by (simp add: primary_tag_open_def)
  show ?thesis
    by (simp only: s1 s2 s3)
qed

lemma primary_in_secondary_tag:
  assumes "plain keyword"
  shows "occurrences primary_tag_open (secondary_tag keyword @ rest) = occurrences primary_tag_open rest"
proof -
  let ?after = "''</span>\<newline>'' @ ''                            '' @ rest"
  have s1: "occurrences primary_tag_open (secondary_tag keyword @ rest) =
      occurrences primary_tag_open (to_string keyword @ ?after)"
    by (simp add: secondary_tag_def primary_tag_open_def)
  have s2: "occurrences primary_tag_open (to_string keyword @ ?after) = occurrences primary_tag_open ?after"
    by (rule primary_tag_open_skip) (use assms in \<open>simp add: plain_def\<close>)
  have s3: "occurrences primary_tag_open ?after = occurrences primary_tag_open rest"
    by (simp add: primary_tag_open_def)
  show ?thesis
    by (simp only: s1 s2 s3)
qed

lemma secondary_in_secondary_tag:
  assumes "plain keyword"
  shows "occurrences secondary_tag_open (secondary_tag keyword @ rest) = Suc (occurrences secondary_tag_open rest)"
proof -
  let ?after = "''</span>\<newline>'' @ ''                            '' @ rest"
  have s1: "occurrences secondary_tag_open (secondary_tag keyword @ rest) =
      Suc (occurrences secondary_tag_open (to_string keyword @ ?after))"
    by (simp add: secondary_tag_def secondary_tag_open_def)
  have s2: "occurrences secondary_tag_open (to_string keyword @ ?after) = occurrences secondary_tag_open ?after"
    by (rule secondary_tag_open_skip) (use assms in \<open>simp add: plain_def\<close>)
  have s3: "occurrences secondary_tag_open ?after = occurrences secondary_tag_open rest"
    by (simp add: secondary_tag_open_def)
  show ?thesis
    by (simp only: s1 s2 s3)
qed

lemma secondary_in_primary_tag:
  assumes "plain keyword"
  shows "occurrences secondary_tag_open (primary_tag keyword @ rest) = occurrences secondary_tag_open rest"
proof -
  let ?after = "''</span>\<newline>'' @ ''                            '' @ rest"
  have s1: "occurrences secondary_tag_open (primary_tag keyword @ rest) =
      occurrences secondary_tag_open (to_string keyword @ ?after)"
    by (simp add: primary_tag_def secondary_tag_open_def)
  have s2: "occurrences secondary_tag_open (to_string keyword @ ?after) = occurrences secondary_tag_open ?after"
    by (rule secondary_tag_open_skip) (use assms in \<open>simp add: plain_def\<close>)
  have s3: "occurrences secondary_tag_open ?after = occurrences secondary_tag_open rest"
    by (simp add: secondary_tag_open_def)
  show ?thesis
    by (simp only: s1 s2 s3)
qed

lemma primary_in_primary_tags:
  "\<forall>k \<in> set ks. plain k \<Longrightarrow>
   occurrences primary_tag_open (concat (map primary_tag ks) @ rest)
     = length ks + occurrences primary_tag_open rest"
  by (induction ks) (simp_all add: primary_in_primary_tag)

lemma primary_in_secondary_tags:
  "\<forall>k \<in> set ks. plain k \<Longrightarrow>
   occurrences primary_tag_open (concat (map secondary_tag ks) @ rest) = occurrences primary_tag_open rest"
  by (induction ks) (simp_all add: primary_in_secondary_tag)

lemma secondary_in_secondary_tags:
  "\<forall>k \<in> set ks. plain k \<Longrightarrow>
   occurrences secondary_tag_open (concat (map secondary_tag ks) @ rest)
     = length ks + occurrences secondary_tag_open rest"
  by (induction ks) (simp_all add: secondary_in_secondary_tag)

lemma secondary_in_primary_tags:
  "\<forall>k \<in> set ks. plain k \<Longrightarrow>
   occurrences secondary_tag_open (concat (map primary_tag ks) @ rest) = occurrences secondary_tag_open rest"
  by (induction ks) (simp_all add: secondary_in_primary_tag)

text \<open>The fixed texts of the section hold no keyword tag.\<close>

lemma primary_tag_open_fixed_texts:
  "occurrences primary_tag_open (marketing_open @ b) = occurrences primary_tag_open b"
  "occurrences primary_tag_open (primary_open @ b) = occurrences primary_tag_open b"
  "occurrences primary_tag_open (primary_close @ b) = occurrences primary_tag_open b"
  "occurrences primary_tag_open (secondary_open @ b) = occurrences primary_tag_open b"
  "occurrences primary_tag_open (secondary_close @ b) = occurrences primary_tag_open b"
  "occurrences primary_tag_open marketing_close = 0"
  unfolding marketing_open_def primary_open_def primary_close_def
    secondary_open_def secondary_close_def marketing_close_def append_assoc
  by (simp_all add: occurrences_clear occurrences_clear_end primary_tag_open_def del: append.simps)

lemma secondary_tag_open_fixed_texts:
  "occurrences secondary_tag_open (marketing_open @ b) = occurrences secondary_tag_open b"
  "occurrences secondary_tag_open (primary_open @ b) = occurrences secondary_tag_open b"
  "occurrences secondary_tag_open (primary_close @ b) = occurrences secondary_tag_open b"
  "occurrences secondary_tag_open (secondary_open @ b) = occurrences secondary_tag_open b"
  "occurrences secondary_tag_open (secondary_close @ b) = occurrences secondary_tag_open b"
  "occurrences secondary_tag_open marketing_close = 0"
  unfolding marketing_open_def primary_open_def primary_close_def
    secondary_open_def secondary_close_def marketing_close_def append_assoc
  by (simp_all add: occurrences_clear occurrences_clear_end secondary_tag_open_def del: append.simps)

lemma plain_take: "\<forall>k \<in> set ks. plain k \<Longrightarrow> \<forall>k \<in> set (take n ks). plain k"
  by (meson in_set_takeD)

lemma keyword_tags_in_section:
  assumes "\<forall>k \<in> set (keyword_list (palavras_primarias m)). plain k"
    and "\<forall>k \<in> set (keyword_list (palavras_secundarias m)). plain k"
  shows "occurrences primary_tag_open (buildMarketingSection m)
           = length (keyword_list (palavras_primarias m))"
    and "occurrences secondary_tag_open (buildMarketingSection m)
           = min 10 (length (keyword_list (palavras_secundarias m)))"
proof -
  note ten = plain_take [OF assms(2), of 10]
  show "occurrences primary_tag_open (buildMarketingSection m)
           = length (keyword_list (palavras_primarias m))"
    unfolding buildMarketingSection_html
    by (simp add: primary_tag_open_fixed_texts primary_in_primary_tags [OF assms(1)]
        primary_in_secondary_tags [OF ten])
  show "occurrences secondary_tag_open (buildMarketingSection m)
           = min 10 (length (keyword_list (palavras_secundarias m)))"
    unfolding buildMarketingSection_html
    by (simp add: secondary_tag_open_fixed_texts secondary_in_primary_tags [OF assms(1)]
        secondary_in_secondary_tags [OF ten] min.commute)
qed

text \<open>What a keyword tag shows, read back from its text, is the keyword's text.\<close>

lemma primary_tag_keyword_primary_tag: "primary_tag_keyword (primary_tag keyword) = to_string keyword"
  unfolding primary_tag_keyword_def primary_tag_def
  by (simp add: between_def)

lemma secondary_tag_keyword_secondary_tag: "secondary_tag_keyword (secondary_tag keyword) = to_string keyword"
  unfolding secondary_tag_keyword_def secondary_tag_def
  by (simp add: between_def)

lemma primary_tags_shown: "map primary_tag_keyword (primary_tags ps) = map to_string ps"
  by (simp add: primary_tags_def primary_tag_keyword_primary_tag)

lemma secondary_tags_shown: "map secondary_tag_keyword (secondary_tags ss) = map to_string (take 10 ss)"
  by (simp add: secondary_tags_def slice0_def secondary_tag_keyword_secondary_tag)


text \<open>
  C7. In the marketing section the primary keywords are all rendered, one tag per
  keyword and in order; of the secondary keywords the first ten are rendered, one tag
  each and in order, and a secondary list of at most ten keywords is rendered in full.
  Each tag shows its keyword: the text read back from between the tag's opening and
  closing text is the keyword's text, so the texts shown by the primary tags are those
  of all the primary keywords, in order, and the texts shown by the secondary tags are
  those of the first ten secondary keywords, in order. The tag of the keyword
  \<open>fitness\<close> is the \<open>span\<close> of class \<open>keyword-tag\<close> (\<open>keyword-tag secondary\<close> for a
  secondary one) around that word.
  The section's HTML is its opening text, the block of primary tags, the block of
  secondary tags and its closing text; a block is left out when its list is missing or
  empty. Read as text, the section holds the opening tag of a primary keyword once per
  primary keyword and that of a secondary keyword once per secondary keyword, up to ten,
  when no keyword brings a \<open><\<close> of its own (the templates insert the keywords' text as
  it is).
\<close>

theorem marketing_keyword_tags:
  "buildMarketingSection m =
     marketing_open
     @ (if keyword_list (palavras_primarias m) = [] then []
        else primary_open @ concat (map primary_tag (keyword_list (palavras_primarias m))) @ primary_close)
     @ (if keyword_list (palavras_secundarias m) = [] then []
        else secondary_open @ concat (map secondary_tag (take 10 (keyword_list (palavras_secundarias m))))
             @ secondary_close)
     @ marketing_close
   \<and> length (primary_tags ps) = length ps
   \<and> (\<forall>i < length ps. primary_tags ps ! i = primary_tag (ps ! i))
   \<and> length (secondary_tags ss) = min 10 (length ss)
   \<and> (\<forall>i < min 10 (length ss). secondary_tags ss ! i = secondary_tag (ss ! i))
   \<and> (length ss \<le> 10 \<longrightarrow> secondary_tags ss = map secondary_tag ss)
   \<and> primary_tag_keyword (primary_tag keyword) = to_string keyword
   \<and> secondary_tag_keyword (secondary_tag keyword) = to_string keyword
   \<and> map primary_tag_keyword (primary_tags ps) = map to_string ps
   \<and> map secondary_tag_keyword (secondary_tags ss) = map to_string (take 10 ss)
   \<and> (\<forall>i < length ps. primary_tag_keyword (primary_tags ps ! i) = to_string (ps ! i))
   \<and> (\<forall>i < min 10 (length ss). secondary_tag_keyword (secondary_tags ss ! i) = to_string (ss ! i))
   \<and> primary_tag (String ''fitness'') =
        ''\<newline>'' @
        ''                                <span class=\"keyword-tag\">fitness</span>\<newline>'' @
        ''                            ''
   \<and> secondary_tag (String ''fitness'') =
        ''\<newline>'' @
        ''                                <span class=\"keyword-tag secondary\">fitness</span>\<newline>'' @
        ''                            ''
   \<and> ((\<forall>k \<in> set (keyword_list (palavras_primarias m)). plain k)
        \<and> (\<forall>k \<in> set (keyword_list (palavras_secundarias m)). plain k) \<longrightarrow>
          occurrences primary_tag_open (buildMarketingSection m)
            = length (keyword_list (palavras_primarias m))
          \<and> occurrences secondary_tag_open (buildMarketingSection m)
            = min 10 (length (keyword_list (palavras_secundarias m))))"
proof (intro conjI allI impI)
  show "length (primary_tags ps) = length ps"
    by (simp add: primary_tags_def)
  show "primary_tags ps ! i = primary_tag (ps ! i)" if "i < length ps" for i
    using that by (simp add: primary_tags_def)
  show "length (secondary_tags ss) = min 10 (length ss)"
    by (rule length_secondary_tags)
  show "secondary_tags ss ! i = secondary_tag (ss ! i)" if "i < min 10 (length ss)" for i
    using that by (rule nth_secondary_tags)
  show "secondary_tags ss = map secondary_tag ss" if "length ss \<le> 10"
    using that by (rule secondary_tags_short)
  show "primary_tag_keyword (primary_tag keyword) = to_string keyword"
    by (rule primary_tag_keyword_primary_tag)
  show "secondary_tag_keyword (secondary_tag keyword) = to_string keyword"
    by (rule secondary_tag_keyword_secondary_tag)
  show "map primary_tag_keyword (primary_tags ps) = map to_string ps"
    by (rule primary_tags_shown)
  show "map secondary_tag_keyword (secondary_tags ss) = map to_string (take 10 ss)"
    by (rule secondary_tags_shown)
  show "primary_tag_keyword (primary_tags ps ! i) = to_string (ps ! i)" if "i < length ps" for i
    using that by (simp add: primary_tags_def primary_tag_keyword_primary_tag)
  show "secondary_tag_keyword (secondary_tags ss ! i) = to_string (ss ! i)"
    if "i < min 10 (length ss)" for i
    using that by (simp add: nth_secondary_tags secondary_tag_keyword_secondary_tag)
  show "primary_tag (String ''fitness'') =
        ''\<newline>'' @
        ''                                <span class=\"keyword-tag\">fitness</span>\<newline>'' @
        ''                            ''"
    by (simp add: primary_tag_def)
  show "secondary_tag (String ''fitness'') =
        ''\<newline>'' @
        ''                                <span class=\"keyword-tag secondary\">fitness</span>\<newline>'' @
        ''                            ''"
    by (simp add: secondary_tag_def)
  assume plain: "(\<forall>k \<in> set (keyword_list (palavras_primarias m)). plain k)
        \<and> (\<forall>k \<in> set (keyword_list (palavras_secundarias m)). plain k)"
  then show "occurrences primary_tag_open (buildMarketingSection m)
            = length (keyword_list (palavras_primarias m))"
    by (simp add: keyword_tags_in_section)
  from plain show "occurrences secondary_tag_open (buildMarketingSection m)
            = min 10 (length (keyword_list (palavras_secundarias m)))"
    by (simp add: keyword_tags_in_section)
qed (rule buildMarketingSection_html)

text \<open>
  Two keywords of each kind are all rendered; of the twelve secondary keywords \<open>k1\<close> to
  \<open>k12\<close>, the ten tags show \<open>k1\<close> to \<open>k10\<close>.
\<close>

theorem marketing_keyword_tags_witness:
  "(1::nat) < length [String ''a'', String ''b'']
   \<and> primary_tags [String ''a'', String ''b''] ! 1 = primary_tag (String ''b'')
   \<and> (1::nat) < min 10 (length [String ''c'', String ''d''])
   \<and> secondary_tags [String ''c'', String ''d''] ! 1 = secondary_tag (String ''d'')
   \<and> length [String ''c'', String ''d''] \<le> 10
   \<and> secondary_tags [String ''c'', String ''d''] = [secondary_tag (String ''c''), secondary_tag (String ''d'')]
   \<and> length (secondary_tags (replicate 12 (String ''k''))) = 10
   \<and> map primary_tag_keyword (primary_tags [String ''a'', String ''b'']) = [''a'', ''b'']
   \<and> primary_tag_keyword (primary_tags [String ''a'', String ''b''] ! 1) = ''b''
   \<and> secondary_tag_keyword (secondary_tags [String ''c'', String ''d''] ! 1) = ''d''
   \<and> map secondary_tag_keyword (secondary_tags
         [String ''k1'', String ''k2'', String ''k3'', String ''k4'', String ''k5'', String ''k6'',
          String ''k7'', String ''k8'', String ''k9'', String ''k10'', String ''k11'', String ''k12''])
       = [''k1'', ''k2'', ''k3'', ''k4'', ''k5'', ''k6'', ''k7'', ''k8'', ''k9'', ''k10'']
   \<and> plain (String ''a'') \<and> plain (String ''b'') \<and> plain (String ''k'')
   \<and> occurrences primary_tag_open (buildMarketingSection
         \<lparr>palavras_primarias = Some [String ''a'', String ''b''],
          palavras_secundarias = Some (replicate 12 (String ''k''))\<rparr>) = 2
   \<and> occurrences secondary_tag_open (buildMarketingSection
         \<lparr>palavras_primarias = Some [String ''a'', String ''b''],
          palavras_secundarias = Some (replicate 12 (String ''k''))\<rparr>) = 10"
proof -
  note two = marketing_keyword_tags
    [of _ "[String ''a'', String ''b'']" "[String ''c'', String ''d'']"]
  note twelve = marketing_keyword_tags [of _ _ "replicate 12 (String ''k'')"]
  have p: "(1::nat) < length [String ''a'', String ''b'']"
    and s: "(1::nat) < min 10 (length [String ''c'', String ''d''])"
    and short: "length [String ''c'', String ''d''] \<le> 10"
    by simp_all
  note dozen = marketing_keyword_tags [of _ _
    "[String ''k1'', String ''k2'', String ''k3'', String ''k4'', String ''k5'', String ''k6'',
      String ''k7'', String ''k8'', String ''k9'', String ''k10'', String ''k11'', String ''k12'']"]
  have shown_primary: "map primary_tag_keyword (primary_tags [String ''a'', String ''b'']) = [''a'', ''b'']"
  proof -
    have "map primary_tag_keyword (primary_tags [String ''a'', String ''b''])
        = map to_string [String ''a'', String ''b'']"
      using two by blast
    then show ?thesis by simp
  qed
  have shown_at: "primary_tag_keyword (primary_tags [String ''a'', String ''b''] ! 1) = ''b''"
  proof -
    have "primary_tag_keyword (primary_tags [String ''a'', String ''b''] ! 1)
        = to_string ([String ''a'', String ''b''] ! 1)"
      using two p by blast
    then show ?thesis by simp
  qed
  have shown_secondary_at: "secondary_tag_keyword (secondary_tags [String ''c'', String ''d''] ! 1) = ''d''"
  proof -
    have "secondary_tag_keyword (secondary_tags [String ''c'', String ''d''] ! 1)
        = to_string ([String ''c'', String ''d''] ! 1)"
      using two s by blast
    then show ?thesis by simp
  qed
  have shown_ten: "map secondary_tag_keyword (secondary_tags
         [String ''k1'', String ''k2'', String ''k3'', String ''k4'', String ''k5'', String ''k6'',
          String ''k7'', String ''k8'', String ''k9'', String ''k10'', String ''k11'', String ''k12''])
       = [''k1'', ''k2'', ''k3'', ''k4'', ''k5'', ''k6'', ''k7'', ''k8'', ''k9'', ''k10'']"
  proof -
    have "map secondary_tag_keyword (secondary_tags
         [String ''k1'', String ''k2'', String ''k3'', String ''k4'', String ''k5'', String ''k6'',
          String ''k7'', String ''k8'', String ''k9'', String ''k10'', String ''k11'', String ''k12''])
       = map to_string (take 10
         [String ''k1'', String ''k2'', String ''k3'', String ''k4'', String ''k5'', String ''k6'',
          String ''k7'', String ''k8'', String ''k9'', String ''k10'', String ''k11'', String ''k12''])"
      using dozen by blast
    then show ?thesis by simp
  qed
  have "primary_tags [String ''a'', String ''b''] ! 1 = primary_tag ([String ''a'', String ''b''] ! 1)"
    using two p by blast
  moreover have "secondary_tags [String ''c'', String ''d''] ! 1 = secondary_tag ([String ''c'', String ''d''] ! 1)"
    using two s by blast
  moreover have "secondary_tags [String ''c'', String ''d''] = map secondary_tag [String ''c'', String ''d'']"
    using two short by blast
  moreover have "length (secondary_tags (replicate 12 (String ''k''))) = min 10 (length (replicate 12 (String ''k'')))"
    using twelve by blast
  ultimately have lists:
    "primary_tags [String ''a'', String ''b''] ! 1 = primary_tag (String ''b'')
     \<and> secondary_tags [String ''c'', String ''d''] ! 1 = secondary_tag (String ''d'')
     \<and> secondary_tags [String ''c'', String ''d''] = [secondary_tag (String ''c''), secondary_tag (String ''d'')]
     \<and> length (secondary_tags (replicate 12 (String ''k''))) = 10"
    by simp
  let ?m = "\<lparr>palavras_primarias = Some [String ''a'', String ''b''],
             palavras_secundarias = Some (replicate 12 (String ''k''))\<rparr>"
  have plain: "plain (String ''a'')" "plain (String ''b'')" "plain (String ''k'')"
    by (simp_all add: plain_def)
  then have "(\<forall>k \<in> set (keyword_list (palavras_primarias ?m)). plain k)
        \<and> (\<forall>k \<in> set (keyword_list (palavras_secundarias ?m)). plain k)"
    by (simp add: keyword_list_def)
  with marketing_keyword_tags [of ?m]
  have "occurrences primary_tag_open (buildMarketingSection ?m)
            = length (keyword_list (palavras_primarias ?m))
        \<and> occurrences secondary_tag_open (buildMarketingSection ?m)
            = min 10 (length (keyword_list (palavras_secundarias ?m)))"
    by blast
  then have "occurrences primary_tag_open (buildMarketingSection ?m) = 2
        \<and> occurrences secondary_tag_open (buildMarketingSection ?m) = 10"
    by (simp add: keyword_list_def)
  with lists plain p s short shown_primary shown_at shown_secondary_at shown_ten show ?thesis
    by blast
qed


subsection \<open>The collected form data\<close>

lemma map_of_filter_snd:
  "distinct (map fst xs) \<Longrightarrow>
   map_of (filter (\<lambda>kv. Q (snd kv)) xs) k =
     (case map_of xs k of None \<Rightarrow> None | Some v \<Rightarrow> if Q v then Some v else None)"
proof (induction xs)
  case Nil
  then show ?case by simp
next
  case (Cons x xs)
  obtain k' v' where x: "x = (k', v')" by (cases x)
  from Cons.prems have notin: "k' \<notin> fst ` set xs" and d: "distinct (map fst xs)"
    by (simp_all add: x)
  from notin have none: "map_of xs k' = None"
    by (simp add: map_of_eq_None_iff)
  from notin have "k' \<notin> fst ` set (filter (\<lambda>kv. Q (snd kv)) xs)"
    by auto
  then have none': "map_of (filter (\<lambda>kv. Q (snd kv)) xs) k' = None"
    by (metis map_of_eq_None_iff)
  show ?case
    using Cons.IH [OF d] none none' by (simp add: x)
qed

lemma data_literal_distinct: "distinct (map fst (data_literal st))"
  by (simp add: data_literal_def Let_def)

lemma map_of_collectFormData:
  "map_of (collectFormData st) k =
     (case map_of (data_literal st) k of
        None \<Rightarrow> None
      | Some v \<Rightarrow> if \<not> (strict_eq v (String []) \<or> strict_eq v Null) then Some v else None)"
  unfolding collectFormData_def remove_empty_def
  by (rule map_of_filter_snd [OF data_literal_distinct])

lemma dropped_text:
  "(strict_eq (formData_get fd n) (String []) \<or> strict_eq (formData_get fd n) Null)
   = (fd n = None \<or> fd n = Some [])"
  by (auto simp: formData_get_def strict_eq_def split: option.split)

lemma dropped_numeric:
  "(strict_eq (numeric_field fd n) (String []) \<or> strict_eq (numeric_field fd n) Null)
   = (fd n = None \<or> fd n = Some [])"
  by (auto simp: numeric_field_def formData_get_def strict_eq_def split: option.split)

lemma numeric_field_value:
  "fd n = Some s \<Longrightarrow> s \<noteq> [] \<Longrightarrow> numeric_field fd n = Number (parseFloat s)"
  by (simp add: numeric_field_def formData_get_def)

lemma data_literal_numeric:
  assumes "n = ''preco'' \<or> n = ''objetivo_receita'' \<or> n = ''orcamento_marketing''"
  shows "map_of (data_literal st) n = Some (numeric_field (form st) n)"
  using assms by (auto simp: data_literal_def Let_def)

lemma data_literal_segmento:
  "map_of (data_literal st) ''segmento'' = Some (formData_get (form st) ''segmento'')"
  by (simp add: data_literal_def Let_def)

lemma collectFormData_numeric:
  assumes "n = ''preco'' \<or> n = ''objetivo_receita'' \<or> n = ''orcamento_marketing''"
  shows "map_of (collectFormData st) n =
           (case form st n of
              None \<Rightarrow> None
            | Some s \<Rightarrow> if s = [] then None else Some (Number (parseFloat s)))"
proof (cases "\<exists>s. form st n = Some s \<and> s \<noteq> []")
  case True
  then obtain s where s: "form st n = Some s" "s \<noteq> []" by blast
  then show ?thesis
    using True
    by (simp add: map_of_collectFormData data_literal_numeric [OF assms]
        numeric_field_value strict_eq_def)
next
  case False
  then have empty: "form st n = None \<or> form st n = Some []"
    by (cases "form st n") auto
  then have "map_of (collectFormData st) n = None"
    using dropped_numeric [of "form st" n]
    by (simp add: map_of_collectFormData data_literal_numeric [OF assms])
  with empty show ?thesis
    by (auto split: option.split)
qed

lemma collectFormData_segmento:
  "map_of (collectFormData st) ''segmento'' =
     (case form st ''segmento'' of
        None \<Rightarrow> None
      | Some s \<Rightarrow> if s = [] then None else Some (String s))"
proof (cases "\<exists>s. form st ''segmento'' = Some s \<and> s \<noteq> []")
  case True
  then obtain s where s: "form st ''segmento'' = Some s" "s \<noteq> []" by blast
  then show ?thesis
    using True
    by (simp add: map_of_collectFormData data_literal_segmento formData_get_def strict_eq_def)
next
  case False
  then have empty: "form st ''segmento'' = None \<or> form st ''segmento'' = Some []"
    by (cases "form st ''segmento''") auto
  then have "map_of (collectFormData st) ''segmento'' = None"
    using dropped_text [of "form st" "''segmento''"]
    by (simp add: map_of_collectFormData data_literal_segmento)
  with empty show ?thesis
    by (auto split: option.split)
qed


lemma map_of_map_snd:
  "map_of (map (\<lambda>kv. (fst kv, f (snd kv))) xs) k = map_option f (map_of xs k)"
  by (induction xs) auto

lemma collectFormData_distinct: "distinct (map fst (collectFormData st))"
  by (simp add: collectFormData_def remove_empty_def distinct_map_filter data_literal_distinct)

lemma json_body_property:
  "get_prop (JSON_stringify (Object (collectFormData st))) k =
     Inr (case map_of (collectFormData st) k of
            None \<Rightarrow> Undefined
          | Some v \<Rightarrow> if v = Undefined then Undefined else JSON_stringify v)"
  by (simp add: property_def map_of_map_snd
      map_of_filter_snd [where Q = "\<lambda>v. v \<noteq> Undefined", OF collectFormData_distinct]
      split: option.split)

lemma json_body_keys:
  "keys (JSON_stringify (Object kvs)) = map fst (filter (\<lambda>kv. snd kv \<noteq> Undefined) kvs)"
  by (simp add: comp_def)

lemma json_body_has_key:
  assumes "map_of kvs k = Some v" and "v \<noteq> Undefined"
  shows "k \<in> set (keys (JSON_stringify (Object kvs)))"
proof -
  from assms(1) have "(k, v) \<in> set kvs"
    by (rule map_of_SomeD)
  with assms(2) have "(k, v) \<in> set (filter (\<lambda>kv. snd kv \<noteq> Undefined) kvs)"
    by simp
  then have "fst (k, v) \<in> fst ` set (filter (\<lambda>kv. snd kv \<noteq> Undefined) kvs)"
    by (rule imageI)
  then show ?thesis
    by (simp only: json_body_keys set_map fst_conv)
qed

lemma parseFloat_abc: "parseFloat ''abc'' = NaN"
  by (simp add: parseFloat_eval)

text \<open>
  C1, as the code has it. A numeric field (\<open>preco\<close>, \<open>objetivo_receita\<close>,
  \<open>orcamento_marketing\<close>) is left out of the payload exactly when the form has no value
  for it or the empty string. On every other string the payload holds the field with the
  number \<open>parseFloat\<close> reads; when the string does not parse, that number is \<open>NaN\<close>: the
  field is still there, and the JSON body carries it as \<open>null\<close>.
\<close>

theorem numeric_field_payload:
  "(n = ''preco'' \<or> n = ''objetivo_receita'' \<or> n = ''orcamento_marketing'') \<longrightarrow>
     map_of (collectFormData st) n =
       (case form st n of
          None \<Rightarrow> None
        | Some s \<Rightarrow> if s = [] then None else Some (Number (parseFloat s)))
     \<and> (\<forall>s. form st n = Some s \<and> s \<noteq> [] \<and> parseFloat s = NaN \<longrightarrow>
           map_of (collectFormData st) n = Some (Number NaN)
           \<and> n \<in> set (keys (JSON_stringify (Object (collectFormData st))))
           \<and> get_prop (JSON_stringify (Object (collectFormData st))) n = Inr Null)"
proof (intro impI conjI allI)
  assume n: "n = ''preco'' \<or> n = ''objetivo_receita'' \<or> n = ''orcamento_marketing''"
  show "map_of (collectFormData st) n =
       (case form st n of
          None \<Rightarrow> None
        | Some s \<Rightarrow> if s = [] then None else Some (Number (parseFloat s)))"
    using n by (rule collectFormData_numeric)
  fix s
  assume "form st n = Some s \<and> s \<noteq> [] \<and> parseFloat s = NaN"
  then show kept: "map_of (collectFormData st) n = Some (Number NaN)"
    by (simp add: collectFormData_numeric [OF n])
  then show "n \<in> set (keys (JSON_stringify (Object (collectFormData st))))"
    by (rule json_body_has_key) simp
  from kept show "get_prop (JSON_stringify (Object (collectFormData st))) n = Inr Null"
    unfolding json_body_property by simp
qed

text \<open>A price that reads as 12.5 is sent as that number; the price \<open>abc\<close> is sent as \<open>NaN\<close>.\<close>

theorem numeric_field_payload_witness:
  "(''preco'' = ''preco'' \<or> ''preco'' = ''objetivo_receita'' \<or> ''preco'' = ''orcamento_marketing'')
   \<and> map_of (collectFormData (fresh_app\<lparr>form := blank_form(''preco'' \<mapsto> ''12.5'')\<rparr>)) ''preco''
       = Some (Number (Finite (25 / 2)))
   \<and> form (fresh_app\<lparr>form := blank_form(''preco'' \<mapsto> ''abc'')\<rparr>) ''preco'' = Some ''abc''
   \<and> ''abc'' \<noteq> []
   \<and> parseFloat ''abc'' = NaN
   \<and> get_prop (JSON_stringify (Object (collectFormData (fresh_app\<lparr>form := blank_form(''preco'' \<mapsto> ''abc'')\<rparr>))))
        ''preco'' = Inr Null"
proof -
  have parsed: "parseFloat ''12.5'' = Finite (25 / 2)"
    by (simp add: parseFloat_eval)
  have "map_of (collectFormData (fresh_app\<lparr>form := blank_form(''preco'' \<mapsto> ''12.5'')\<rparr>)) ''preco''
          = Some (Number (parseFloat ''12.5''))"
    using numeric_field_payload [of "''preco''" "fresh_app\<lparr>form := blank_form(''preco'' \<mapsto> ''12.5'')\<rparr>"]
    by simp
  moreover have
    "get_prop (JSON_stringify (Object (collectFormData (fresh_app\<lparr>form := blank_form(''preco'' \<mapsto> ''abc'')\<rparr>))))
        ''preco'' = Inr Null"
    using numeric_field_payload [of "''preco''" "fresh_app\<lparr>form := blank_form(''preco'' \<mapsto> ''abc'')\<rparr>"]
      parseFloat_abc
    by simp
  ultimately show ?thesis
    by (simp add: parsed parseFloat_abc)
qed

text \<open>
  C1 as stated fails: with \<open>abc\<close> in the price field, which does not parse as a number,
  the payload still has the property \<open>preco\<close>, and so has the JSON body.
\<close>

theorem unparsable_price_kept:
  "form (fresh_app\<lparr>form := blank_form(''preco'' \<mapsto> ''abc'')\<rparr>) ''preco'' = Some ''abc''
   \<and> parseFloat ''abc'' = NaN
   \<and> map_of (collectFormData (fresh_app\<lparr>form := blank_form(''preco'' \<mapsto> ''abc'')\<rparr>)) ''preco''
       = Some (Number NaN)
   \<and> ''preco'' \<in> set (map fst (collectFormData (fresh_app\<lparr>form := blank_form(''preco'' \<mapsto> ''abc'')\<rparr>)))
   \<and> ''preco'' \<in> set (keys (JSON_stringify (Object (collectFormData
        (fresh_app\<lparr>form := blank_form(''preco'' \<mapsto> ''abc'')\<rparr>)))))"
proof -
  let ?st = "fresh_app\<lparr>form := blank_form(''preco'' \<mapsto> ''abc'')\<rparr>"
  have kept: "map_of (collectFormData ?st) ''preco'' = Some (Number NaN)"
    by (simp add: collectFormData_numeric parseFloat_abc)
  then have "(''preco'', Number NaN) \<in> set (collectFormData ?st)"
    by (rule map_of_SomeD)
  then have "fst (''preco'', Number NaN) \<in> fst ` set (collectFormData ?st)"
    by (rule imageI)
  then have "''preco'' \<in> set (map fst (collectFormData ?st))"
    by (simp only: set_map fst_conv)
  moreover from kept have "''preco'' \<in> set (keys (JSON_stringify (Object (collectFormData ?st))))"
    by (rule json_body_has_key) simp
  ultimately show ?thesis
    using kept by (simp add: parseFloat_abc)
qed


subsection \<open>Submitting the form\<close>

lemma requests_showError [simp]: "requests (showError message st) = requests st"
  by (simp add: showError_def showNotification_def)

lemma requests_hideLoading [simp]: "requests (hideLoading st) = requests st"
  by (simp add: hideLoading_def)

lemma requests_analysis_failed [simp]: "requests (analysis_failed message st) = requests st"
  by (simp add: analysis_failed_def)

lemma requests_displayResults:
  "requests (case displayResults b v st of Inl (message, st') \<Rightarrow> analysis_failed message st' | Inr st' \<Rightarrow> st')
   = requests st"
  by (simp add: displayResults_def Let_def split: sum.split)

lemma requests_performAnalysis:
  "requests (performAnalysis b data r st) = requests st @ [analyze_request data]"
proof (cases r)
  case (Rejected message)
  then show ?thesis
    by (simp add: performAnalysis_def showLoading_def Let_def)
next
  case (Resolved ok json)
  show ?thesis
  proof (cases json)
    case (Inl message)
    with Resolved show ?thesis
      by (simp add: performAnalysis_def showLoading_def Let_def)
  next
    case (Inr v)
    show ?thesis
    proof (cases ok)
      case True
      with Resolved Inr show ?thesis
        by (simp add: performAnalysis_def showLoading_def Let_def requests_displayResults)
    next
      case False
      with Resolved Inr show ?thesis
        by (simp add: performAnalysis_def showLoading_def Let_def split: sum.split)
    qed
  qed
qed

lemma segmento_truthy:
  "truthy (property (collectFormData st) ''segmento'') = (\<exists>s. form st ''segmento'' = Some s \<and> s \<noteq> [])"
  by (auto simp: property_def collectFormData_segmento split: option.split)

lemma handleFormSubmit_invalid:
  assumes "form st ''segmento'' = None \<or> form st ''segmento'' = Some []"
  shows "handleFormSubmit b r st =
           showError (''O campo \"Segmento de Mercado\" '' @ [CHR 0xC3, CHR 0xA9] @
                      '' obrigat'' @ [CHR 0xC3, CHR 0xB3] @ ''rio.'') st"
proof -
  from assms have "\<not> truthy (property (collectFormData st) ''segmento'')"
    unfolding segmento_truthy by auto
  then show ?thesis
    by (simp add: handleFormSubmit_def validateFormData_def Let_def)
qed

lemma handleFormSubmit_valid:
  assumes "form st ''segmento'' = Some s" and "s \<noteq> []"
  shows "handleFormSubmit b r st = performAnalysis b (collectFormData st) r st"
proof -
  from assms have "truthy (property (collectFormData st) ''segmento'')"
    unfolding segmento_truthy by auto
  then show ?thesis
    by (simp add: handleFormSubmit_def validateFormData_def Let_def)
qed

text \<open>
  C5. When the segmento field is unset or empty the submission stops at validation: the
  state changes only by one more error notification, with the message about the
  required field, and no request is issued. Segmento is the only field required: when
  it holds a non-empty value, whatever the other fields hold, validation passes and the
  request to \<open>/api/analyze\<close> is issued.
\<close>

theorem segmento_required:
  "(form st ''segmento'' = None \<or> form st ''segmento'' = Some [] \<longrightarrow>
      handleFormSubmit b r st =
        st\<lparr>notifications := notifications st @
             [(''error'', ''O campo \"Segmento de Mercado\" '' @ [CHR 0xC3, CHR 0xA9] @
                          '' obrigat'' @ [CHR 0xC3, CHR 0xB3] @ ''rio.'')]\<rparr>
      \<and> requests (handleFormSubmit b r st) = requests st
      \<and> \<not> fst (validateFormData (collectFormData st) st))
   \<and> (\<forall>s. form st ''segmento'' = Some s \<and> s \<noteq> [] \<longrightarrow>
         fst (validateFormData (collectFormData st) st)
         \<and> requests (handleFormSubmit b r st) = requests st @ [analyze_request (collectFormData st)]
         \<and> url (analyze_request (collectFormData st)) = ''/api/analyze'')"
proof (intro conjI impI allI)
  assume missing: "form st ''segmento'' = None \<or> form st ''segmento'' = Some []"
  show "handleFormSubmit b r st =
        st\<lparr>notifications := notifications st @
             [(''error'', ''O campo \"Segmento de Mercado\" '' @ [CHR 0xC3, CHR 0xA9] @
                          '' obrigat'' @ [CHR 0xC3, CHR 0xB3] @ ''rio.'')]\<rparr>"
    by (simp add: handleFormSubmit_invalid [OF missing] showError_def showNotification_def)
  show "requests (handleFormSubmit b r st) = requests st"
    by (simp add: handleFormSubmit_invalid [OF missing])
  from missing show "\<not> fst (validateFormData (collectFormData st) st)"
    by (auto simp: validateFormData_def segmento_truthy)
next
  fix s
  assume "form st ''segmento'' = Some s \<and> s \<noteq> []"
  then have present: "form st ''segmento'' = Some s" "s \<noteq> []"
    by simp_all
  then show "fst (validateFormData (collectFormData st) st)"
    by (simp add: validateFormData_def segmento_truthy)
  show "requests (handleFormSubmit b r st) = requests st @ [analyze_request (collectFormData st)]"
    by (simp add: handleFormSubmit_valid [OF present] requests_performAnalysis)
  show "url (analyze_request (collectFormData st)) = ''/api/analyze''"
    by (simp add: analyze_request_def)
qed

text \<open>
  On the blank form nothing is sent; with \<open>fitness\<close> as the segment and the server
  unreachable, the request has been issued all the same.
\<close>

theorem segmento_required_witness:
  "(form fresh_app ''segmento'' = None \<or> form fresh_app ''segmento'' = Some [])
   \<and> requests (handleFormSubmit (\<lambda>result. Inr []) (Rejected ''Failed to fetch'') fresh_app) = []
   \<and> notifications (handleFormSubmit (\<lambda>result. Inr []) (Rejected ''Failed to fetch'') fresh_app) =
        [(''error'', ''O campo \"Segmento de Mercado\" '' @ [CHR 0xC3, CHR 0xA9] @
                     '' obrigat'' @ [CHR 0xC3, CHR 0xB3] @ ''rio.'')]
   \<and> form (fresh_app\<lparr>form := blank_form(''segmento'' \<mapsto> ''fitness'')\<rparr>) ''segmento'' = Some ''fitness''
   \<and> ''fitness'' \<noteq> []
   \<and> map url (requests (handleFormSubmit (\<lambda>result. Inr []) (Rejected ''Failed to fetch'')
                 (fresh_app\<lparr>form := blank_form(''segmento'' \<mapsto> ''fitness'')\<rparr>))) = [''/api/analyze'']"
proof -
  have blank: "form fresh_app ''segmento'' = Some []"
    by (simp add: fresh_app_def blank_form_def)
  have none: "requests fresh_app = []" "notifications fresh_app = []"
    by (simp_all add: fresh_app_def)
  from blank none
    segmento_required [of fresh_app "\<lambda>result. Inr []" "Rejected ''Failed to fetch''"]
  have "requests (handleFormSubmit (\<lambda>result. Inr []) (Rejected ''Failed to fetch'') fresh_app) = []
    \<and> notifications (handleFormSubmit (\<lambda>result. Inr []) (Rejected ''Failed to fetch'') fresh_app) =
        [(''error'', ''O campo \"Segmento de Mercado\" '' @ [CHR 0xC3, CHR 0xA9] @
                     '' obrigat'' @ [CHR 0xC3, CHR 0xB3] @ ''rio.'')]"
    by simp
  moreover
  let ?st = "fresh_app\<lparr>form := blank_form(''segmento'' \<mapsto> ''fitness'')\<rparr>"
  have "form ?st ''segmento'' = Some ''fitness'' \<and> ''fitness'' \<noteq> []"
    by simp
  with segmento_required [of ?st "\<lambda>result. Inr []" "Rejected ''Failed to fetch''"]
  have "requests (handleFormSubmit (\<lambda>result. Inr []) (Rejected ''Failed to fetch'') ?st)
          = requests ?st @ [analyze_request (collectFormData ?st)]
        \<and> url (analyze_request (collectFormData ?st)) = ''/api/analyze''"
    by blast
  then have "map url (requests (handleFormSubmit (\<lambda>result. Inr []) (Rejected ''Failed to fetch'') ?st)) = [''/api/analyze'']"
    by (simp add: fresh_app_def)
  ultimately show ?thesis
    using blank by simp
qed


lemma generateSessionId_not_empty: "generateSessionId now random36 \<noteq> []"
  by (simp add: generateSessionId_def)

lemma collectFormData_segmento_only:
  assumes seg: "form st ''segmento'' = Some s" "s \<noteq> []"
    and others: "\<forall>n. n \<noteq> ''segmento'' \<longrightarrow> form st n = None \<or> form st n = Some []"
    and sid: "sessionId st \<noteq> []"
  shows "collectFormData st = [(''session_id'', String (sessionId st)), (''segmento'', String s)]"
proof -
  have text_dropped:
    "strict_eq (formData_get (form st) n) (String []) \<or> strict_eq (formData_get (form st) n) Null"
    if "n \<noteq> ''segmento''" for n
    using that others by (simp add: dropped_text)
  have numeric_dropped:
    "strict_eq (numeric_field (form st) n) (String []) \<or> strict_eq (numeric_field (form st) n) Null"
    if "n \<noteq> ''segmento''" for n
    using that others by (simp add: dropped_numeric)
  have session_kept:
    "\<not> strict_eq (String (sessionId st)) (String [])" "\<not> strict_eq (String (sessionId st)) Null"
    using sid by (simp_all add: strict_eq_def)
  have segmento_kept:
    "formData_get (form st) ''segmento'' = String s"
    "\<not> strict_eq (String s) (String [])" "\<not> strict_eq (String s) Null"
    using seg by (simp_all add: formData_get_def strict_eq_def)
  show ?thesis
    unfolding collectFormData_def data_literal_def remove_empty_def Let_def
    by (simp add: text_dropped numeric_dropped session_kept segmento_kept)
qed

text \<open>
  C3. When segmento holds \<open>fitness\<close> and every other field is empty or absent, submitting
  the form issues one request, a POST to \<open>/api/analyze\<close>, whose JSON body is the object
  with the two keys \<open>session_id\<close> and \<open>segmento\<close>, the latter \<open>fitness\<close>, and no other key.
  The session id is the one the controller generated (such an id is never empty).
\<close>

theorem fitness_only_request:
  assumes "form st ''segmento'' = Some ''fitness''"
    and "\<forall>n. n \<noteq> ''segmento'' \<longrightarrow> form st n = None \<or> form st n = Some []"
    and "sessionId st = generateSessionId now random36"
  shows "requests (handleFormSubmit b r st) =
           requests st @
           [\<lparr>url = ''/api/analyze'', http_method = ''POST'',
             headers = [(''Content-Type'', ''application/json'')],
             body = JsonBody (Object [(''session_id'', String (sessionId st)),
                                      (''segmento'', String ''fitness'')])\<rparr>]
         \<and> keys (JSON_stringify (Object (collectFormData st))) = [''session_id'', ''segmento'']
         \<and> get_prop (JSON_stringify (Object (collectFormData st))) ''segmento'' = Inr (String ''fitness'')"
proof -
  have sid: "sessionId st \<noteq> []"
    using assms(3) by (simp add: generateSessionId_not_empty)
  have data: "collectFormData st =
      [(''session_id'', String (sessionId st)), (''segmento'', String ''fitness'')]"
    using assms(1) _ assms(2) sid by (rule collectFormData_segmento_only) simp
  have "handleFormSubmit b r st = performAnalysis b (collectFormData st) r st"
    using assms(1) by (rule handleFormSubmit_valid) simp
  then show ?thesis
    by (simp add: requests_performAnalysis data analyze_request_def property_def)
qed

text \<open>
  The blank form with \<open>fitness\<close> entered as the segment: every other control is there
  and empty.
\<close>

theorem fitness_only_request_witness:
  "form (fresh_app\<lparr>form := blank_form(''segmento'' \<mapsto> ''fitness'')\<rparr>) ''segmento'' = Some ''fitness''
   \<and> form (fresh_app\<lparr>form := blank_form(''segmento'' \<mapsto> ''fitness'')\<rparr>) ''produto'' = Some []
   \<and> sessionId (fresh_app\<lparr>form := blank_form(''segmento'' \<mapsto> ''fitness'')\<rparr>)
       = generateSessionId 1700000000000 ''0.4fzyo82mvyr''
   \<and> map body (requests (handleFormSubmit (\<lambda>result. Inr []) (Resolved True (Inr (Object [])))
                   (fresh_app\<lparr>form := blank_form(''segmento'' \<mapsto> ''fitness'')\<rparr>)))
       = [JsonBody (Object [(''session_id'', String (generateSessionId 1700000000000 ''0.4fzyo82mvyr'')),
                            (''segmento'', String ''fitness'')])]"
proof -
  let ?st = "fresh_app\<lparr>form := blank_form(''segmento'' \<mapsto> ''fitness'')\<rparr>"
  have seg: "form ?st ''segmento'' = Some ''fitness''"
    by simp
  have others: "\<forall>n. n \<noteq> ''segmento'' \<longrightarrow> form ?st n = None \<or> form ?st n = Some []"
    by (simp add: blank_form_def)
  have sid: "sessionId ?st = generateSessionId 1700000000000 ''0.4fzyo82mvyr''"
    by (simp add: fresh_app_def)
  have "requests ?st = []"
    by (simp add: fresh_app_def)
  with fitness_only_request [OF seg others sid, of "\<lambda>result. Inr []" "Resolved True (Inr (Object []))"]
  have "map body (requests (handleFormSubmit (\<lambda>result. Inr []) (Resolved True (Inr (Object []))) ?st))
       = [JsonBody (Object [(''session_id'', String (sessionId ?st)), (''segmento'', String ''fitness'')])]"
    by simp
  moreover have "form ?st ''produto'' = Some []"
    by (simp add: blank_form_def)
  ultimately show ?thesis
    using seg sid by simp
qed

subsection \<open>PDF download\<close>

text \<open>
  C6. When no analysis is stored (\<open>currentAnalysis\<close> is \<open>null\<close>), \<open>downloadPDF\<close> only
  shows an error notification: no request is issued, whatever the server would have
  answered, nothing is downloaded, and the rest of the state is as before.
\<close>

theorem download_without_analysis:
  assumes "currentAnalysis st = Null"
  shows "downloadPDF r iso_now st =
           st\<lparr>notifications := notifications st @
                [(''error'', ''Nenhuma an'' @ [CHR 0xC3, CHR 0xA1] @ ''lise dispon'' @
                             [CHR 0xC3, CHR 0xAD] @ ''vel para download.'')]\<rparr>
         \<and> requests (downloadPDF r iso_now st) = requests st
         \<and> downloads (downloadPDF r iso_now st) = downloads st"
  using assms by (simp add: downloadPDF_def showError_def showNotification_def)

theorem download_without_analysis_witness:
  "currentAnalysis fresh_app = Null
   \<and> requests (downloadPDF (Resolved True (Inr ''%PDF'')) ''2024-05-01T10:00:00.000Z'' fresh_app) = []
   \<and> downloads (downloadPDF (Resolved True (Inr ''%PDF'')) ''2024-05-01T10:00:00.000Z'' fresh_app) = []
   \<and> map fst (notifications (downloadPDF (Resolved True (Inr ''%PDF'')) ''2024-05-01T10:00:00.000Z'' fresh_app))
       = [''error'']"
proof -
  have null: "currentAnalysis fresh_app = Null"
    by (simp add: fresh_app_def)
  have "requests fresh_app = []" "downloads fresh_app = []" "notifications fresh_app = []"
    by (simp_all add: fresh_app_def)
  with download_without_analysis [OF null, of "Resolved True (Inr ''%PDF'')" "''2024-05-01T10:00:00.000Z''"] null
  show ?thesis
    by simp
qed


subsection \<open>Uploading and removing files\<close>

lemma get_prop_total:
  "get_prop v p = Inr x \<Longrightarrow> \<exists>y. get_prop v q = Inr y"
  by (cases v) simp_all

lemma upload_failed_fields [simp]:
  "uploadedFiles (upload_failed file message st) = uploadedFiles st"
  "uploadedFilesContainer (upload_failed file message st) = uploadedFilesContainer st"
  "notifications (upload_failed file message st) =
     notifications st @ [(''error'', ''Erro ao processar \"'' @ file_name file @ ''\": '' @ message)]"
  by (simp_all add: upload_failed_def showError_def showNotification_def)

lemma uploadFile_failure:
  assumes "\<not> upload_succeeds r"
  shows "\<exists>message. uploadFile file r now st =
           upload_failed file message
             (st\<lparr>requests := requests st @ [upload_request file (sessionId st)]\<rparr>)"
proof (cases r)
  case (Rejected message)
  then show ?thesis
    by (auto simp: uploadFile_def Let_def)
next
  case (Resolved ok json)
  show ?thesis
  proof (cases json)
    case (Inl message)
    with Resolved show ?thesis
      by (auto simp: uploadFile_def Let_def)
  next
    case (Inr result)
    show ?thesis
    proof (cases "get_prop result ''success''")
      case (Inl message)
      with Resolved Inr show ?thesis
        by (auto simp: uploadFile_def Let_def)
    next
      case success: (Inr success)
      with assms Resolved Inr have "\<not> truthy success"
        by (simp add: upload_succeeds_def)
      with Resolved Inr success show ?thesis
        by (cases "get_prop result ''error''") (auto simp: uploadFile_def Let_def)
    qed
  qed
qed

lemma uploadFile_success:
  assumes "upload_succeeds r"
  shows "\<exists>content_type attachment_id. uploadFile file r now st =
           upload_succeeded file content_type attachment_id now
             (st\<lparr>requests := requests st @ [upload_request file (sessionId st)]\<rparr>)"
proof -
  from assms obtain ok result success where r: "r = Resolved ok (Inr result)"
    and success: "get_prop result ''success'' = Inr success" "truthy success"
    by (auto simp: upload_succeeds_def split: reply.splits sum.splits)
  from success(1) obtain content_type where ct: "get_prop result ''content_type'' = Inr content_type"
    using get_prop_total by blast
  from success(1) obtain attachment_id where aid: "get_prop result ''attachment_id'' = Inr attachment_id"
    using get_prop_total by blast
  show ?thesis
    by (auto simp: uploadFile_def Let_def r success ct aid)
qed

lemma uploadedFiles_updateUploadedFilesList [simp]:
  "uploadedFiles (updateUploadedFilesList st) = uploadedFiles st"
  by (simp add: updateUploadedFilesList_def)

lemma uploadedFiles_upload_succeeded:
  "uploadedFiles (upload_succeeded file content_type attachment_id now st) =
     uploadedFiles st @
     [\<lparr>name = file_name file, size_d = file_size file, type_d = content_type,
       id_d = js_or attachment_id (Number (Finite (of_nat now)))\<rparr>]"
  by (simp add: upload_succeeded_def Let_def showSuccess_def showNotification_def)

lemma new_id_equals_itself:
  "strict_eq (js_or attachment_id (Number (Finite r))) (js_or attachment_id (Number (Finite r)))"
  by (auto simp: strict_eq_def js_or_def)

text \<open>
  C10. Whenever the upload fails, the upload list is exactly what it was before the
  call, and so is its rendering on the page; the only trace is an error notification
  that names the file. The upload fails on every reply but a parsed body with a true
  \<open>success\<close>: when the request throws, when the body cannot be parsed, and when the
  parsed object's \<open>success\<close> is false or missing.
\<close>

theorem failed_upload_keeps_list:
  "(\<not> upload_succeeds r \<longrightarrow>
      uploadedFiles (uploadFile file r now st) = uploadedFiles st
      \<and> uploadedFilesContainer (uploadFile file r now st) = uploadedFilesContainer st
      \<and> (\<exists>message. notifications (uploadFile file r now st) =
            notifications st @
            [(''error'', ''Erro ao processar \"'' @ file_name file @ ''\": '' @ message)]))
   \<and> \<not> upload_succeeds (Rejected thrown)
   \<and> \<not> upload_succeeds (Resolved ok (Inl unparsable))
   \<and> (\<not> truthy (property props ''success'') \<longrightarrow> \<not> upload_succeeds (Resolved ok (Inr (Object props))))"
proof (intro conjI impI)
  assume failed: "\<not> upload_succeeds r"
  then obtain message where
    "uploadFile file r now st =
       upload_failed file message (st\<lparr>requests := requests st @ [upload_request file (sessionId st)]\<rparr>)"
    using uploadFile_failure by blast
  then show "uploadedFiles (uploadFile file r now st) = uploadedFiles st"
    and "uploadedFilesContainer (uploadFile file r now st) = uploadedFilesContainer st"
    and "\<exists>message. notifications (uploadFile file r now st) =
            notifications st @
            [(''error'', ''Erro ao processar \"'' @ file_name file @ ''\": '' @ message)]"
    by simp_all
qed (simp_all add: upload_succeeds_def)

text \<open>
  A server answer \<open>{success: false, error: "too large"}\<close> leaves the list of the fresh
  controller empty and shows the server's message.
\<close>

theorem failed_upload_keeps_list_witness:
  "\<not> truthy (property [(''success'', Bool False), (''error'', String ''too large'')] ''success'')
   \<and> \<not> upload_succeeds (Resolved True (Inr (Object [(''success'', Bool False), (''error'', String ''too large'')])))
   \<and> uploadedFiles (uploadFile \<lparr>file_name = ''a.txt'', file_size = 2048\<rparr>
         (Resolved True (Inr (Object [(''success'', Bool False), (''error'', String ''too large'')])))
         1700000000123 fresh_app) = []
   \<and> notifications (uploadFile \<lparr>file_name = ''a.txt'', file_size = 2048\<rparr>
         (Resolved True (Inr (Object [(''success'', Bool False), (''error'', String ''too large'')])))
         1700000000123 fresh_app) = [(''error'', ''Erro ao processar \"a.txt\": too large'')]"
proof -
  let ?fields = "[(''success'', Bool False), (''error'', String ''too large'')]"
  let ?r = "Resolved True (Inr (Object ?fields))"
  let ?file = "\<lparr>file_name = ''a.txt'', file_size = 2048\<rparr>"
  note inst = failed_upload_keeps_list [of ?r ?file 1700000000123 fresh_app _ True _ ?fields]
  have falsy: "\<not> truthy (property ?fields ''success'')"
    by (simp add: property_def)
  with inst have failed: "\<not> upload_succeeds ?r"
    by blast
  with inst have "uploadedFiles (uploadFile ?file ?r 1700000000123 fresh_app) = uploadedFiles fresh_app"
    by blast
  then have "uploadedFiles (uploadFile ?file ?r 1700000000123 fresh_app) = []"
    by (simp add: fresh_app_def)
  moreover have "notifications (uploadFile ?file ?r 1700000000123 fresh_app)
      = [(''error'', ''Erro ao processar \"a.txt\": too large'')]"
    by (simp add: uploadFile_def Let_def property_def js_or_def fresh_app_def)
  ultimately show ?thesis
    using falsy failed by simp
qed


lemma uploadFile_appends:
  assumes "upload_succeeds r"
  shows "\<exists>content_type attachment_id.
           uploadedFiles (uploadFile file r now st) =
             uploadedFiles st @
             [\<lparr>name = file_name file, size_d = file_size file, type_d = content_type,
               id_d = js_or attachment_id (Number (Finite (of_nat now)))\<rparr>]"
proof -
  from uploadFile_success [OF assms] obtain content_type attachment_id where
    "uploadFile file r now st =
       upload_succeeded file content_type attachment_id now
         (st\<lparr>requests := requests st @ [upload_request file (sessionId st)]\<rparr>)"
    by blast
  then have "uploadedFiles (uploadFile file r now st) =
      uploadedFiles st @
      [\<lparr>name = file_name file, size_d = file_size file, type_d = content_type,
        id_d = js_or attachment_id (Number (Finite (of_nat now)))\<rparr>]"
    by (simp add: uploadedFiles_upload_succeeded)
  then show ?thesis
    by blast
qed

lemma uploadedFiles_removeFile:
  "uploadedFiles (removeFile fileId st) =
     filter (\<lambda>file. \<not> strict_eq (id_d file) fileId) (uploadedFiles st)"
  by (simp add: removeFile_def)

lemma uploadedFilesContainer_removeFile:
  "uploadedFilesContainer (removeFile fileId st) =
     map_option (\<lambda>_. concat (map file_item (uploadedFiles (removeFile fileId st))))
       (uploadedFilesContainer st)"
  by (cases "uploadedFilesContainer st")
    (simp_all add: removeFile_def updateUploadedFilesList_def join_empty_separator)

text \<open>
  The page calls \<open>removeFile\<close> with the id written into the \<open>onclick\<close> text, that is, with
  a string. A descriptor whose id is a number (the \<open>Date.now()\<close> fallback) is never equal
  to it and stays in the list.
\<close>

lemma removeFile_string_keeps_number_ids:
  assumes "\<forall>d \<in> set (uploadedFiles st). \<exists>n. id_d d = Number n"
  shows "uploadedFiles (removeFile (String s) st) = uploadedFiles st"
proof -
  have "\<forall>d \<in> set (uploadedFiles st). \<not> strict_eq (id_d d) (String s)"
    using assms by (auto simp: strict_eq_def)
  then show ?thesis
    by (simp add: uploadedFiles_removeFile)
qed

text \<open>
  C2, as the code has it. After a successful upload the list is the prior list \<open>L\<close>
  followed by the new descriptor. When no descriptor of \<open>L\<close> has an id equal (\<open>===\<close>) to
  the new descriptor's id, \<open>removeFile\<close> called with that id gives back exactly \<open>L\<close>, in
  its order (so as a set too), and the page shows the items of \<open>L\<close>.
\<close>

theorem upload_then_remove:
  assumes "upload_succeeds r"
    and "\<forall>d \<in> set (uploadedFiles st).
           \<not> strict_eq (id_d d) (id_d (last (uploadedFiles (uploadFile file r now st))))"
  shows "uploadedFiles (uploadFile file r now st) =
           uploadedFiles st @ [last (uploadedFiles (uploadFile file r now st))]
         \<and> uploadedFiles (removeFile (id_d (last (uploadedFiles (uploadFile file r now st))))
              (uploadFile file r now st)) = uploadedFiles st
         \<and> set (uploadedFiles (removeFile (id_d (last (uploadedFiles (uploadFile file r now st))))
              (uploadFile file r now st))) = set (uploadedFiles st)
         \<and> uploadedFilesContainer (removeFile (id_d (last (uploadedFiles (uploadFile file r now st))))
              (uploadFile file r now st)) =
            map_option (\<lambda>_. concat (map file_item (uploadedFiles st)))
              (uploadedFilesContainer (uploadFile file r now st))"
proof -
  from uploadFile_appends [OF assms(1)] obtain content_type attachment_id where
    appended: "uploadedFiles (uploadFile file r now st) =
      uploadedFiles st @
      [\<lparr>name = file_name file, size_d = file_size file, type_d = content_type,
        id_d = js_or attachment_id (Number (Finite (of_nat now)))\<rparr>]"
    by blast
  define new_id where "new_id = js_or attachment_id (Number (Finite (of_nat now)))"
  have last_id: "id_d (last (uploadedFiles (uploadFile file r now st))) = new_id"
    by (simp add: appended new_id_def)
  have self: "strict_eq new_id new_id"
    unfolding new_id_def by (rule new_id_equals_itself)
  have others: "\<forall>d \<in> set (uploadedFiles st). \<not> strict_eq (id_d d) new_id"
    using assms(2) by (simp only: last_id)
  have removed: "uploadedFiles (removeFile new_id (uploadFile file r now st)) = uploadedFiles st"
    using others self by (simp add: uploadedFiles_removeFile appended new_id_def)
  show ?thesis
    unfolding last_id
    by (simp add: removed uploadedFilesContainer_removeFile) (simp add: appended)
qed

text \<open>
  Into an empty list and into a list that holds a file with another id, the upload of
  \<open>b.txt\<close> with id \<open>att-2\<close> is undone by removing \<open>att-2\<close>.
\<close>

theorem upload_then_remove_witness:
  "upload_succeeds (Resolved True (Inr (Object
      [(''success'', Bool True), (''content_type'', String ''text''), (''attachment_id'', String ''att-2'')])))
   \<and> \<not> strict_eq (String ''att-1'') (String ''att-2'')
   \<and> uploadedFiles (removeFile (String ''att-2'')
        (uploadFile \<lparr>file_name = ''b.txt'', file_size = 2048\<rparr>
           (Resolved True (Inr (Object
              [(''success'', Bool True), (''content_type'', String ''text''),
               (''attachment_id'', String ''att-2'')])))
           1700000000123
           (fresh_app\<lparr>uploadedFiles :=
              [\<lparr>name = ''a.txt'', size_d = 10, type_d = String ''text'', id_d = String ''att-1''\<rparr>]\<rparr>)))
       = [\<lparr>name = ''a.txt'', size_d = 10, type_d = String ''text'', id_d = String ''att-1''\<rparr>]"
proof -
  let ?r = "Resolved True (Inr (Object
      [(''success'', Bool True), (''content_type'', String ''text''), (''attachment_id'', String ''att-2'')]))"
  let ?a = "\<lparr>name = ''a.txt'', size_d = 10, type_d = String ''text'', id_d = String ''att-1''\<rparr>"
  let ?st = "fresh_app\<lparr>uploadedFiles := [?a]\<rparr>"
  let ?file = "\<lparr>file_name = ''b.txt'', file_size = 2048\<rparr>"
  have ok: "upload_succeeds ?r"
    by (simp add: upload_succeeds_def property_def)
  have new: "id_d (last (uploadedFiles (uploadFile ?file ?r 1700000000123 ?st))) = String ''att-2''"
    by (simp add: uploadFile_def Let_def property_def uploadedFiles_upload_succeeded js_or_def)
  have distinct_ids: "\<forall>d \<in> set [?a]. \<not> strict_eq (id_d d) (String ''att-2'')"
    by (simp add: strict_eq_def)
  then have hyp: "\<forall>d \<in> set (uploadedFiles ?st).
      \<not> strict_eq (id_d d) (id_d (last (uploadedFiles (uploadFile ?file ?r 1700000000123 ?st))))"
    by (simp only: new) simp
  from upload_then_remove [OF ok hyp]
  have "uploadedFiles (removeFile (id_d (last (uploadedFiles (uploadFile ?file ?r 1700000000123 ?st))))
          (uploadFile ?file ?r 1700000000123 ?st)) = uploadedFiles ?st"
    by blast
  then have "uploadedFiles (removeFile (String ''att-2'') (uploadFile ?file ?r 1700000000123 ?st)) = [?a]"
    by (simp only: new) simp
  moreover have "\<not> strict_eq (String ''att-1'') (String ''att-2'')"
    by (simp add: strict_eq_def)
  ultimately show ?thesis
    using ok by blast
qed

text \<open>
  C2 as stated fails on a list that already holds a descriptor with the id the server
  sends again: removing by that id takes both descriptors away, and the list that held
  \<open>a.txt\<close> ends up empty.
\<close>

theorem remove_takes_equal_ids:
  "upload_succeeds (Resolved True (Inr (Object
      [(''success'', Bool True), (''content_type'', String ''text''), (''attachment_id'', String ''att-1'')])))
   \<and> id_d (last (uploadedFiles
        (uploadFile \<lparr>file_name = ''b.txt'', file_size = 2048\<rparr>
           (Resolved True (Inr (Object
              [(''success'', Bool True), (''content_type'', String ''text''),
               (''attachment_id'', String ''att-1'')])))
           1700000000123
           (fresh_app\<lparr>uploadedFiles :=
              [\<lparr>name = ''a.txt'', size_d = 10, type_d = String ''text'', id_d = String ''att-1''\<rparr>]\<rparr>))))
       = String ''att-1''
   \<and> uploadedFiles (removeFile (String ''att-1'')
        (uploadFile \<lparr>file_name = ''b.txt'', file_size = 2048\<rparr>
           (Resolved True (Inr (Object
              [(''success'', Bool True), (''content_type'', String ''text''),
               (''attachment_id'', String ''att-1'')])))
           1700000000123
           (fresh_app\<lparr>uploadedFiles :=
              [\<lparr>name = ''a.txt'', size_d = 10, type_d = String ''text'', id_d = String ''att-1''\<rparr>]\<rparr>)))
       = []
   \<and> set (uploadedFiles (removeFile (String ''att-1'')
        (uploadFile \<lparr>file_name = ''b.txt'', file_size = 2048\<rparr>
           (Resolved True (Inr (Object
              [(''success'', Bool True), (''content_type'', String ''text''),
               (''attachment_id'', String ''att-1'')])))
           1700000000123
           (fresh_app\<lparr>uploadedFiles :=
              [\<lparr>name = ''a.txt'', size_d = 10, type_d = String ''text'', id_d = String ''att-1''\<rparr>]\<rparr>))))
       \<noteq> set (uploadedFiles (fresh_app\<lparr>uploadedFiles :=
              [\<lparr>name = ''a.txt'', size_d = 10, type_d = String ''text'', id_d = String ''att-1''\<rparr>]\<rparr>))"
proof -
  let ?r = "Resolved True (Inr (Object
      [(''success'', Bool True), (''content_type'', String ''text''), (''attachment_id'', String ''att-1'')]))"
  let ?a = "\<lparr>name = ''a.txt'', size_d = 10, type_d = String ''text'', id_d = String ''att-1''\<rparr>"
  let ?st = "fresh_app\<lparr>uploadedFiles := [?a]\<rparr>"
  let ?file = "\<lparr>file_name = ''b.txt'', file_size = 2048\<rparr>"
  have ok: "upload_succeeds ?r"
    by (simp add: upload_succeeds_def property_def)
  have list: "uploadedFiles (uploadFile ?file ?r 1700000000123 ?st) =
      [?a, \<lparr>name = ''b.txt'', size_d = 2048, type_d = String ''text'', id_d = String ''att-1''\<rparr>]"
    by (simp add: uploadFile_def Let_def property_def uploadedFiles_upload_succeeded js_or_def)
  have removed: "uploadedFiles (removeFile (String ''att-1'') (uploadFile ?file ?r 1700000000123 ?st)) = []"
    by (simp add: uploadedFiles_removeFile list strict_eq_def)
  show ?thesis
    using ok by (simp add: removed list)
qed


subsection \<open>Starting a new analysis\<close>

lemma takeWhile_decimal_underscore:
  "takeWhile (\<lambda>c. c \<noteq> CHR ''_'') (decimal n @ CHR ''_'' # rest) = decimal n"
proof -
  have "\<not> is_digit (CHR ''_'')"
    by (simp add: is_digit_def)
  then have "CHR ''_'' \<notin> set (decimal n)"
    by (rule decimal_no_char)
  then have "\<forall>c \<in> set (decimal n). c \<noteq> CHR ''_''"
    by blast
  then show ?thesis
    by (simp add: takeWhile_append2)
qed

lemma generateSessionId_inject:
  "generateSessionId now1 r1 = generateSessionId now2 r2
   \<longleftrightarrow> now1 = now2 \<and> substr r1 2 9 = substr r2 2 9"
proof
  assume "generateSessionId now1 r1 = generateSessionId now2 r2"
  then have eq: "decimal now1 @ CHR ''_'' # substr r1 2 9 = decimal now2 @ CHR ''_'' # substr r2 2 9"
    by (simp add: generateSessionId_def)
  then have "takeWhile (\<lambda>c. c \<noteq> CHR ''_'') (decimal now1 @ CHR ''_'' # substr r1 2 9)
           = takeWhile (\<lambda>c. c \<noteq> CHR ''_'') (decimal now2 @ CHR ''_'' # substr r2 2 9)"
    by (rule arg_cong)
  then have "decimal now1 = decimal now2"
    by (simp only: takeWhile_decimal_underscore)
  with eq show "now1 = now2 \<and> substr r1 2 9 = substr r2 2 9"
    by (simp add: decimal_inject)
next
  assume "now1 = now2 \<and> substr r1 2 9 = substr r2 2 9"
  then show "generateSessionId now1 r1 = generateSessionId now2 r2"
    by (simp add: generateSessionId_def)
qed

lemma startNewAnalysis_fields:
  "startNewAnalysis now random36 st =
     st\<lparr>form := form_defaults st,
        uploadedFiles := [],
        uploadedFilesContainer := map_option (\<lambda>_. []) (uploadedFilesContainer st),
        resultsSection := map_option (\<lambda>_. ''none'') (resultsSection st),
        sessionId := generateSessionId now random36,
        currentAnalysis := Null\<rparr>"
  by (cases "uploadedFilesContainer st")
    (simp_all add: startNewAnalysis_def updateUploadedFilesList_def Let_def)

text \<open>
  C4, as the code has it. After \<open>startNewAnalysis\<close> the upload list is empty (and shown
  empty), no analysis is stored and the results are hidden; a second call in a row
  changes nothing but the session id. The two session ids are made from the clock and
  nine characters of random text, with no check against a collision: they differ
  exactly when the two clock readings differ or the two random texts differ in those
  nine characters.
\<close>

theorem start_twice:
  "uploadedFiles (startNewAnalysis now1 r1 st) = []
   \<and> uploadedFilesContainer (startNewAnalysis now1 r1 st) = map_option (\<lambda>_. []) (uploadedFilesContainer st)
   \<and> currentAnalysis (startNewAnalysis now1 r1 st) = Null
   \<and> resultsSection (startNewAnalysis now1 r1 st) = map_option (\<lambda>_. ''none'') (resultsSection st)
   \<and> sessionId (startNewAnalysis now1 r1 st) = generateSessionId now1 r1
   \<and> startNewAnalysis now2 r2 (startNewAnalysis now1 r1 st)
       = (startNewAnalysis now1 r1 st)\<lparr>sessionId := generateSessionId now2 r2\<rparr>
   \<and> (sessionId (startNewAnalysis now2 r2 (startNewAnalysis now1 r1 st))
         \<noteq> sessionId (startNewAnalysis now1 r1 st)
       \<longleftrightarrow> now1 \<noteq> now2 \<or> substr r1 2 9 \<noteq> substr r2 2 9)"
proof -
  have twice: "startNewAnalysis now2 r2 (startNewAnalysis now1 r1 st)
       = (startNewAnalysis now1 r1 st)\<lparr>sessionId := generateSessionId now2 r2\<rparr>"
    by (cases "uploadedFilesContainer st"; cases "resultsSection st")
      (simp_all add: startNewAnalysis_fields)
  have ids: "(sessionId (startNewAnalysis now2 r2 (startNewAnalysis now1 r1 st))
         \<noteq> sessionId (startNewAnalysis now1 r1 st))
       = (now1 \<noteq> now2 \<or> substr r1 2 9 \<noteq> substr r2 2 9)"
    using generateSessionId_inject [of now2 r2 now1 r1]
    by (auto simp: startNewAnalysis_fields)
  show ?thesis
    using twice ids by (simp add: startNewAnalysis_fields)
qed

text \<open>
  One millisecond apart the two ids differ; the fresh controller, with a file uploaded
  and results shown, is emptied by the first call.
\<close>

theorem start_twice_witness:
  "uploadedFiles (startNewAnalysis 1700000000001 ''0.8kq3z5n1xwb''
      (fresh_app\<lparr>uploadedFiles :=
         [\<lparr>name = ''a.txt'', size_d = 10, type_d = String ''text'', id_d = String ''att-1''\<rparr>],
         resultsSection := Some ''block''\<rparr>)) = []
   \<and> resultsSection (startNewAnalysis 1700000000001 ''0.8kq3z5n1xwb''
      (fresh_app\<lparr>uploadedFiles :=
         [\<lparr>name = ''a.txt'', size_d = 10, type_d = String ''text'', id_d = String ''att-1''\<rparr>],
         resultsSection := Some ''block''\<rparr>)) = Some ''none''
   \<and> (1700000000001::nat) \<noteq> 1700000000002
   \<and> sessionId (startNewAnalysis 1700000000002 ''0.8kq3z5n1xwb''
        (startNewAnalysis 1700000000001 ''0.8kq3z5n1xwb''
          (fresh_app\<lparr>uploadedFiles :=
             [\<lparr>name = ''a.txt'', size_d = 10, type_d = String ''text'', id_d = String ''att-1''\<rparr>],
             resultsSection := Some ''block''\<rparr>)))
       \<noteq> sessionId (startNewAnalysis 1700000000001 ''0.8kq3z5n1xwb''
          (fresh_app\<lparr>uploadedFiles :=
             [\<lparr>name = ''a.txt'', size_d = 10, type_d = String ''text'', id_d = String ''att-1''\<rparr>],
             resultsSection := Some ''block''\<rparr>))"
proof -
  let ?st = "fresh_app\<lparr>uploadedFiles :=
         [\<lparr>name = ''a.txt'', size_d = 10, type_d = String ''text'', id_d = String ''att-1''\<rparr>],
         resultsSection := Some ''block''\<rparr>"
  note inst = start_twice [of 1700000000001 "''0.8kq3z5n1xwb''" ?st 1700000000002 "''0.8kq3z5n1xwb''"]
  have later: "(1700000000001::nat) \<noteq> 1700000000002"
    by simp
  from inst have "uploadedFiles (startNewAnalysis 1700000000001 ''0.8kq3z5n1xwb'' ?st) = []"
    by blast
  moreover from inst
  have "resultsSection (startNewAnalysis 1700000000001 ''0.8kq3z5n1xwb'' ?st)
      = map_option (\<lambda>_. ''none'') (resultsSection ?st)"
    by blast
  then have "resultsSection (startNewAnalysis 1700000000001 ''0.8kq3z5n1xwb'' ?st) = Some ''none''"
    by simp
  moreover from inst later
  have "sessionId (startNewAnalysis 1700000000002 ''0.8kq3z5n1xwb''
          (startNewAnalysis 1700000000001 ''0.8kq3z5n1xwb'' ?st))
        \<noteq> sessionId (startNewAnalysis 1700000000001 ''0.8kq3z5n1xwb'' ?st)"
    by blast
  ultimately show ?thesis
    using later by blast
qed

text \<open>
  C4 as stated fails: two calls within the same millisecond, whose random texts
  \<open>0.8kq3z5n1xwb\<close> and \<open>0.8kq3z5n1xpq\<close> agree in the nine characters kept, produce the
  same session id.
\<close>

theorem start_twice_same_id:
  "''0.8kq3z5n1xwb'' \<noteq> ''0.8kq3z5n1xpq''
   \<and> sessionId (startNewAnalysis 1700000000001 ''0.8kq3z5n1xpq''
        (startNewAnalysis 1700000000001 ''0.8kq3z5n1xwb'' fresh_app))
       = sessionId (startNewAnalysis 1700000000001 ''0.8kq3z5n1xwb'' fresh_app)
   \<and> sessionId (startNewAnalysis 1700000000001 ''0.8kq3z5n1xwb'' fresh_app)
       = ''session_1700000000001_8kq3z5n1x''"
proof -
  have "decimal 1700000000001 = ''1700000000001''"
    by (simp add: decimal_step decimal_digit digit_char_def)
  then have "generateSessionId 1700000000001 ''0.8kq3z5n1xwb'' = ''session_1700000000001_8kq3z5n1x''"
    and "generateSessionId 1700000000001 ''0.8kq3z5n1xpq'' = ''session_1700000000001_8kq3z5n1x''"
    by (simp_all add: generateSessionId_def substr_def)
  then show ?thesis
    by (simp add: startNewAnalysis_fields)
qed

end
